theory Spec2Isabelle
  imports Complex_Main
begin

section \<open>The JavaScript runtime, as far as the library uses it\<close>

text \<open>
  A JavaScript string is modelled as a \<open>string\<close>: a list of characters with codes
  \<open>0..255\<close>. The character classes below are the regular expressions of
  \<open>lexer.js\<close> read on these codes.
\<close>

definition isSpace :: "char \<Rightarrow> bool" where
  \<comment> \<open>\<open>/\s/\<close>: TAB, LF, VT, FF, CR, SPACE and U+00A0.\<close>
  "isSpace c = (of_char c \<in> {9, 10, 11, 12, 13, 32, 160 :: nat})"

definition isDigit :: "char \<Rightarrow> bool" where
  \<comment> \<open>\<open>/\d/\<close>\<close>
  "isDigit c = (48 \<le> (of_char c :: nat) \<and> (of_char c :: nat) \<le> 57)"

definition isUpper :: "char \<Rightarrow> bool" where
  "isUpper c = (65 \<le> (of_char c :: nat) \<and> (of_char c :: nat) \<le> 90)"

definition isLower :: "char \<Rightarrow> bool" where
  "isLower c = (97 \<le> (of_char c :: nat) \<and> (of_char c :: nat) \<le> 122)"

definition isIdentStart :: "char \<Rightarrow> bool" where
  \<comment> \<open>\<open>/[a-zA-Z_]/\<close>\<close>
  "isIdentStart c = (isLower c \<or> isUpper c \<or> c = CHR ''_'')"

definition isIdentChar :: "char \<Rightarrow> bool" where
  \<comment> \<open>\<open>/[a-zA-Z0-9_]/\<close>\<close>
  "isIdentChar c = (isIdentStart c \<or> isDigit c)"

definition upperChar :: "char \<Rightarrow> char" where
  "upperChar c =
     (case map_of (zip ''abcdefghijklmnopqrstuvwxyz'' ''ABCDEFGHIJKLMNOPQRSTUVWXYZ'') c of
        Some u \<Rightarrow> u | None \<Rightarrow> c)"

definition lowerChar :: "char \<Rightarrow> char" where
  "lowerChar c =
     (case map_of (zip ''ABCDEFGHIJKLMNOPQRSTUVWXYZ'' ''abcdefghijklmnopqrstuvwxyz'') c of
        Some l \<Rightarrow> l | None \<Rightarrow> c)"

definition toUpperCase :: "string \<Rightarrow> string" where
  \<comment> \<open>\<open>String.prototype.toUpperCase\<close> on the letters \<open>a..z\<close>; the library compares
      the result with ASCII words only.\<close>
  "toUpperCase s = map upperChar s"

definition toLowerCase :: "string \<Rightarrow> string" where
  "toLowerCase s = map lowerChar s"

definition trim :: "string \<Rightarrow> string" where
  \<comment> \<open>\<open>String.prototype.trim\<close>\<close>
  "trim s = rev (dropWhile isSpace (rev (dropWhile isSpace s)))"


section \<open>Errors (\<open>errors/sql-error.js\<close>)\<close>

text \<open>
  \<open>SQLError\<close> carries a message, a code, a line, a column and a context object. The
  code is a string at every factory; two throw sites of the parser call the constructor
  with the line in the code's place, so the code is a string or a number. Any other
  exception of the runtime is \<open>JSError\<close>.
\<close>

datatype errcode = Code string | NumCode nat

datatype exn =
    SQLError (err_message: string) (err_code: errcode) (err_line: nat) (err_column: nat)
      (err_context: "(string \<times> string) list")
  | JSError (js_message: string)

definition lexicalError :: "string \<Rightarrow> nat \<Rightarrow> nat \<Rightarrow> exn" where
  "lexicalError msg l c = SQLError msg (Code ''LEXICAL_ERROR'') l c []"

definition unterminatedString :: "nat \<Rightarrow> nat \<Rightarrow> exn" where
  "unterminatedString l c =
     SQLError ''Unterminated string literal'' (Code ''UNTERMINATED_STRING'') l c []"

definition unexpectedToken :: "string \<Rightarrow> string \<Rightarrow> nat \<Rightarrow> nat \<Rightarrow> exn" where
  "unexpectedToken expected actual l c =
     SQLError (''Expected '' @ expected @ '', but got '' @ actual) (Code ''UNEXPECTED_TOKEN'') l c
       [(''expected'', expected), (''actual'', actual)]"

definition unexpectedEnd :: "nat \<Rightarrow> nat \<Rightarrow> exn" where
  "unexpectedEnd l c = SQLError ''Unexpected end of input'' (Code ''UNEXPECTED_END'') l c []"

section \<open>Tokens (\<open>lexer/token-types.js\<close>)\<close>

text \<open>
  A token type is the string the \<open>TokenType\<close> table gives it; \<open>KEYWORDS\<close> maps the
  upper-case spelling of a keyword to its token type.
\<close>

record token =
  tok_type :: string
  tok_value :: string
  tok_line :: nat
  tok_column :: nat
  tok_start :: nat
  tok_end :: nat

definition Token :: "string \<Rightarrow> string \<Rightarrow> nat \<Rightarrow> nat \<Rightarrow> nat \<Rightarrow> nat \<Rightarrow> token" where
  "Token ty v l c s e =
     \<lparr>tok_type = ty, tok_value = v, tok_line = l, tok_column = c, tok_start = s, tok_end = e\<rparr>"

definition KEYWORDS :: "(string \<times> string) list" where
  "KEYWORDS = [
     (''CREATE'', ''CREATE''), (''DROP'', ''DROP''), (''ALTER'', ''ALTER''),
     (''TABLE'', ''TABLE''), (''INDEX'', ''INDEX''), (''VIEW'', ''VIEW''),
     (''DATABASE'', ''DATABASE''), (''SCHEMA'', ''SCHEMA''), (''SELECT'', ''SELECT''),
     (''INSERT'', ''INSERT''), (''UPDATE'', ''UPDATE''), (''DELETE'', ''DELETE''),
     (''FROM'', ''FROM''), (''WHERE'', ''WHERE''), (''INTO'', ''INTO''),
     (''VALUES'', ''VALUES''), (''SET'', ''SET''), (''JOIN'', ''JOIN''),
     (''INNER'', ''INNER''), (''LEFT'', ''LEFT''), (''RIGHT'', ''RIGHT''),
     (''FULL'', ''FULL''), (''OUTER'', ''OUTER''), (''CROSS'', ''CROSS''),
     (''ON'', ''ON''), (''USING'', ''USING''), (''GROUP'', ''GROUP''),
     (''BY'', ''BY''), (''HAVING'', ''HAVING''), (''ORDER'', ''ORDER''),
     (''ASC'', ''ASC''), (''DESC'', ''DESC''), (''LIMIT'', ''LIMIT''),
     (''OFFSET'', ''OFFSET''), (''UNION'', ''UNION''), (''INTERSECT'', ''INTERSECT''),
     (''EXCEPT'', ''EXCEPT''), (''ALL'', ''ALL''), (''ANY'', ''ANY''),
     (''DISTINCT'', ''DISTINCT''), (''WITH'', ''WITH''), (''RECURSIVE'', ''RECURSIVE''),
     (''OVER'', ''OVER''), (''PARTITION'', ''PARTITION''), (''WINDOW'', ''WINDOW''),
     (''ROWS'', ''ROWS''), (''RANGE'', ''RANGE''), (''UNBOUNDED'', ''UNBOUNDED''),
     (''PRECEDING'', ''PRECEDING''), (''FOLLOWING'', ''FOLLOWING''), (''CURRENT'', ''CURRENT''),
     (''ROW'', ''ROW''), (''ROW_NUMBER'', ''ROW_NUMBER''), (''RANK'', ''RANK''),
     (''DENSE_RANK'', ''DENSE_RANK''), (''LEAD'', ''LEAD''), (''LAG'', ''LAG''),
     (''FIRST_VALUE'', ''FIRST_VALUE''), (''LAST_VALUE'', ''LAST_VALUE''), (''NTH_VALUE'', ''NTH_VALUE''),
     (''INT'', ''INT''), (''INTEGER'', ''INTEGER''), (''VARCHAR'', ''VARCHAR''),
     (''CHAR'', ''CHAR''), (''TEXT'', ''TEXT''), (''DECIMAL'', ''DECIMAL''),
     (''FLOAT'', ''FLOAT''), (''DOUBLE'', ''DOUBLE''), (''DATE'', ''DATE''),
     (''TIME'', ''TIME''), (''TIMESTAMP'', ''TIMESTAMP''), (''BOOLEAN'', ''BOOLEAN_TYPE''),
     (''INTERVAL'', ''INTERVAL''), (''YEAR'', ''YEAR''), (''MONTH'', ''MONTH''),
     (''DAY'', ''DAY''), (''HOUR'', ''HOUR''), (''MINUTE'', ''MINUTE''),
     (''SECOND'', ''SECOND''), (''PRIMARY'', ''PRIMARY''), (''FOREIGN'', ''FOREIGN''),
     (''KEY'', ''KEY''), (''UNIQUE'', ''UNIQUE''), (''NOT'', ''NOT''),
     (''CONSTRAINT'', ''CONSTRAINT''), (''CHECK'', ''CHECK''), (''DEFAULT'', ''DEFAULT''),
     (''AUTO_INCREMENT'', ''AUTO_INCREMENT''), (''AND'', ''AND''), (''OR'', ''OR''),
     (''IN'', ''IN''), (''EXISTS'', ''EXISTS''), (''BETWEEN'', ''BETWEEN''),
     (''LIKE'', ''LIKE''), (''ILIKE'', ''ILIKE''), (''IS'', ''IS''),
     (''AS'', ''AS''), (''COUNT'', ''COUNT''), (''SUM'', ''SUM''),
     (''AVG'', ''AVG''), (''MIN'', ''MIN''), (''MAX'', ''MAX''),
     (''CASE'', ''CASE''), (''WHEN'', ''WHEN''), (''THEN'', ''THEN''),
     (''ELSE'', ''ELSE''), (''END'', ''END''), (''TRUE'', ''BOOLEAN''),
     (''FALSE'', ''BOOLEAN''), (''NULL'', ''NULL'')]"

section \<open>The lexer (\<open>lexer/lexer.js\<close>)\<close>

record lexer =
  input :: string
  position :: nat
  line :: nat
  column :: nat
  tokens :: "token list"
  includeWhitespace :: bool
  includeComments :: bool

definition current :: "lexer \<Rightarrow> char option" where
  "current lx = (if position lx \<ge> length (input lx) then None else Some (input lx ! position lx))"

definition peek :: "lexer \<Rightarrow> char option" where
  \<comment> \<open>\<open>peek(offset = 1)\<close>; the lexer only calls it with the default offset.\<close>
  "peek lx = (if position lx + 1 \<ge> length (input lx) then None
              else Some (input lx ! (position lx + 1)))"

definition advance :: "lexer \<Rightarrow> lexer" where
  \<comment> \<open>The state after \<open>advance()\<close>; the character it returns is \<open>current\<close> of the
      state before.\<close>
  "advance lx =
     (if position lx \<ge> length (input lx) then lx
      else if input lx ! position lx = CHR 0x0A
        then lx\<lparr>position := position lx + 1, line := line lx + 1, column := 1\<rparr>
        else lx\<lparr>position := position lx + 1, column := column lx + 1\<rparr>)"

definition push :: "token \<Rightarrow> lexer \<Rightarrow> lexer" where
  "push t lx = lx\<lparr>tokens := tokens lx @ [t]\<rparr>"

lemma advance_input [simp]: "input (advance lx) = input lx"
  by (simp add: advance_def)

lemma advance_position:
  "position (advance lx) = (if position lx < length (input lx) then position lx + 1 else position lx)"
  by (simp add: advance_def)

lemma current_Some_lt: "current lx = Some c \<Longrightarrow> position lx < length (input lx)"
  by (simp add: current_def split: if_splits)

text \<open>
  \<open>readWhile p\<close> is the loop
  \<^verbatim>\<open>while (this.current() && p(this.current())) { value += this.advance(); }\<close>
  which \<open>skipWhitespace\<close>, \<open>readIdentifier\<close>, \<open>readNumber\<close> and
  \<open>readSingleLineComment\<close> run; it returns the extended value and the state.
\<close>

function readWhile :: "(char \<Rightarrow> bool) \<Rightarrow> lexer \<Rightarrow> string \<Rightarrow> string \<times> lexer" where
  "readWhile p lx v =
     (case current lx of
        None \<Rightarrow> (v, lx)
      | Some c \<Rightarrow> if p c then readWhile p (advance lx) (v @ [c]) else (v, lx))"
  by pat_completeness auto
termination
  by (relation "measure (\<lambda>(p, lx, v). length (input lx) - position lx)")
     (auto simp: advance_position dest!: current_Some_lt)

declare readWhile.simps [simp del]

definition skipWhitespace :: "lexer \<Rightarrow> lexer" where
  "skipWhitespace lx = snd (readWhile (\<lambda>c. isSpace c \<and> c \<noteq> CHR 0x0A) lx [])"

definition readIdentifier :: "lexer \<Rightarrow> exn + token \<times> lexer" where
  "readIdentifier lx =
     (let start = position lx; startLine = line lx; startColumn = column lx in
      case (case current lx of
              None \<Rightarrow> None
            | Some c \<Rightarrow> if isIdentStart c then None else Some c) of
        Some c \<Rightarrow>
          Inl (lexicalError (''Invalid identifier start character: '' @ [c]) (line lx) (column lx))
      | None \<Rightarrow>
          (case readWhile isIdentChar lx [] of
             (v, lx') \<Rightarrow>
               let upperValue = toUpperCase v;
                   tokenType = (case map_of KEYWORDS upperValue of
                                   Some t \<Rightarrow> t | None \<Rightarrow> ''IDENTIFIER'')
               in Inr (Token tokenType v startLine startColumn start (position lx'), lx')))"

text \<open>The loop of \<open>readQuotedIdentifier\<close>: a backslash drops itself and keeps the next
  character.\<close>

function readQuotedIdentifier_loop :: "char \<Rightarrow> lexer \<Rightarrow> string \<Rightarrow> string \<times> lexer" where
  "readQuotedIdentifier_loop quote lx v =
     (case current lx of
        None \<Rightarrow> (v, lx)
      | Some c \<Rightarrow>
          if c = quote then (v, lx)
          else if c = CHR 0x5C then
            (case current (advance lx) of
               None \<Rightarrow> readQuotedIdentifier_loop quote (advance lx) v
             | Some e \<Rightarrow> readQuotedIdentifier_loop quote (advance (advance lx)) (v @ [e]))
          else readQuotedIdentifier_loop quote (advance lx) (v @ [c]))"
  by pat_completeness auto
termination
  by (relation "measure (\<lambda>(q, lx, v). length (input lx) - position lx)")
     (auto simp: advance_position dest!: current_Some_lt)

declare readQuotedIdentifier_loop.simps [simp del]

definition readQuotedIdentifier :: "char \<Rightarrow> lexer \<Rightarrow> exn + token \<times> lexer" where
  "readQuotedIdentifier quote lx =
     (let start = position lx; startLine = line lx; startColumn = column lx in
      case readQuotedIdentifier_loop quote (advance lx) [] of
        (v, lx') \<Rightarrow>
          (case current lx' of
             None \<Rightarrow> Inl (lexicalError ''Unterminated quoted identifier'' startLine startColumn)
           | Some _ \<Rightarrow>
               let lx'' = advance lx'
               in Inr (Token ''IDENTIFIER'' v startLine startColumn start (position lx''), lx'')))"

definition unescape :: "char \<Rightarrow> char" where
  \<comment> \<open>The \<open>switch (escaped)\<close> of \<open>readString\<close>.\<close>
  "unescape e =
     (if e = CHR ''n'' then CHR 0x0A
      else if e = CHR ''t'' then CHR 0x09
      else if e = CHR ''r'' then CHR 0x0D
      else e)"

function readString_loop :: "char \<Rightarrow> lexer \<Rightarrow> string \<Rightarrow> string \<times> lexer" where
  "readString_loop quote lx v =
     (case current lx of
        None \<Rightarrow> (v, lx)
      | Some c \<Rightarrow>
          if c = quote then (v, lx)
          else if c = CHR 0x5C then
            (case current (advance lx) of
               None \<Rightarrow> readString_loop quote (advance lx) v
             | Some e \<Rightarrow> readString_loop quote (advance (advance lx)) (v @ [unescape e]))
          else readString_loop quote (advance lx) (v @ [c]))"
  by pat_completeness auto
termination
  by (relation "measure (\<lambda>(q, lx, v). length (input lx) - position lx)")
     (auto simp: advance_position dest!: current_Some_lt)

declare readString_loop.simps [simp del]

definition readString :: "char \<Rightarrow> lexer \<Rightarrow> exn + token \<times> lexer" where
  "readString quote lx =
     (let start = position lx; startLine = line lx; startColumn = column lx in
      case readString_loop quote (advance lx) [] of
        (v, lx') \<Rightarrow>
          (case current lx' of
             None \<Rightarrow> Inl (unterminatedString startLine startColumn)
           | Some _ \<Rightarrow>
               let lx'' = advance lx'
               in Inr (Token ''STRING'' v startLine startColumn start (position lx''), lx'')))"

definition readNumber :: "lexer \<Rightarrow> exn + token \<times> lexer" where
  "readNumber lx =
     (let start = position lx; startLine = line lx; startColumn = column lx in
      case readWhile isDigit lx [] of
        (v1, lx1) \<Rightarrow>
          (case (if current lx1 = Some CHR ''.'' \<and>
                    (case peek lx1 of None \<Rightarrow> False | Some d \<Rightarrow> isDigit d)
                 then readWhile isDigit (advance lx1) (v1 @ ''.'')
                 else (v1, lx1)) of
             (v2, lx2) \<Rightarrow>
               (case current lx2 of
                  None \<Rightarrow> Inr (Token ''NUMBER'' v2 startLine startColumn start (position lx2), lx2)
                | Some e \<Rightarrow>
                    if e = CHR ''e'' \<or> e = CHR ''E'' then
                      (case (case current (advance lx2) of
                               None \<Rightarrow> (v2 @ [e], advance lx2)
                             | Some s \<Rightarrow>
                                 if s = CHR ''+'' \<or> s = CHR ''-''
                                 then (v2 @ [e, s], advance (advance lx2))
                                 else (v2 @ [e], advance lx2)) of
                         (v3, lx3) \<Rightarrow>
                           (case current lx3 of
                              None \<Rightarrow> Inl (lexicalError ''Invalid number format'' startLine startColumn)
                            | Some d \<Rightarrow>
                                if \<not> isDigit d
                                then Inl (lexicalError ''Invalid number format'' startLine startColumn)
                                else (case readWhile isDigit lx3 v3 of
                                        (v4, lx4) \<Rightarrow>
                                          Inr (Token ''NUMBER'' v4 startLine startColumn start
                                                 (position lx4), lx4))))
                    else Inr (Token ''NUMBER'' v2 startLine startColumn start (position lx2), lx2))))"

definition readSingleLineComment :: "lexer \<Rightarrow> token option \<times> lexer" where
  "readSingleLineComment lx =
     (let start = position lx; startLine = line lx; startColumn = column lx;
          lx1 = (if current lx = Some CHR ''-'' then advance (advance lx) else advance lx)
      in case readWhile (\<lambda>c. c \<noteq> CHR 0x0A) lx1 [] of
           (v, lx2) \<Rightarrow>
             if includeComments lx
             then (Some (Token ''COMMENT'' (trim v) startLine startColumn start (position lx2)), lx2)
             else (None, lx2))"

function readMultiLineComment_loop :: "lexer \<Rightarrow> string \<Rightarrow> string \<times> lexer" where
  "readMultiLineComment_loop lx v =
     (case current lx of
        None \<Rightarrow> (v, lx)
      | Some c \<Rightarrow>
          if c = CHR ''*'' \<and> peek lx = Some CHR ''/'' then (v, advance (advance lx))
          else readMultiLineComment_loop (advance lx) (v @ [c]))"
  by pat_completeness auto
termination
  by (relation "measure (\<lambda>(lx, v). length (input lx) - position lx)")
     (auto simp: advance_position dest!: current_Some_lt)

declare readMultiLineComment_loop.simps [simp del]

definition readMultiLineComment :: "lexer \<Rightarrow> token option \<times> lexer" where
  "readMultiLineComment lx =
     (let start = position lx; startLine = line lx; startColumn = column lx
      in case readMultiLineComment_loop (advance (advance lx)) [] of
           (v, lx') \<Rightarrow>
             if includeComments lx
             then (Some (Token ''COMMENT'' (trim v) startLine startColumn start (position lx')), lx')
             else (None, lx'))"


definition readOperator :: "lexer \<Rightarrow> exn + token \<times> lexer" where
  "readOperator lx =
     (let start = position lx; startLine = line lx; startColumn = column lx;
          lx1 = advance lx;
          one = (\<lambda>ty c. Inr (Token ty [c] startLine startColumn start (position lx1), lx1));
          two = (\<lambda>ty c d. Inr (Token ty [c, d] startLine startColumn start
                                 (position (advance lx1)), advance lx1))
      in case current lx of
           None \<Rightarrow> Inl (lexicalError ''Unknown operator: null'' startLine startColumn)
         | Some c \<Rightarrow>
             if c = CHR ''='' then one ''EQUALS'' c
             else if c = CHR ''<'' then
               (if current lx1 = Some CHR ''='' then two ''LESS_THAN_EQUALS'' c CHR ''=''
                else if current lx1 = Some CHR ''>'' then two ''NOT_EQUALS'' c CHR ''>''
                else one ''LESS_THAN'' c)
             else if c = CHR ''>'' then
               (if current lx1 = Some CHR ''='' then two ''GREATER_THAN_EQUALS'' c CHR ''=''
                else one ''GREATER_THAN'' c)
             else if c = CHR ''!'' then
               (if current lx1 = Some CHR ''='' then two ''NOT_EQUALS'' c CHR ''=''
                else Inl (lexicalError (''Unexpected character: '' @ [c]) startLine startColumn))
             else if c = CHR ''+'' then one ''PLUS'' c
             else if c = CHR ''-'' then one ''MINUS'' c
             else if c = CHR ''*'' then one ''MULTIPLY'' c
             else if c = CHR ''/'' then one ''DIVIDE'' c
             else if c = CHR ''%'' then one ''MODULO'' c
             else if c = CHR ''|'' then
               (if current lx1 = Some CHR ''|'' then two ''CONCAT'' c CHR ''|''
                else Inl (lexicalError (''Unexpected character: '' @ [c]) startLine startColumn))
             else Inl (lexicalError (''Unknown operator: '' @ [c]) startLine startColumn))"

definition readPunctuation :: "lexer \<Rightarrow> exn + token \<times> lexer" where
  "readPunctuation lx =
     (let start = position lx; startLine = line lx; startColumn = column lx;
          lx1 = advance lx;
          tok = (\<lambda>ty c. Inr (Token ty [c] startLine startColumn start (position lx1), lx1))
      in case current lx of
           None \<Rightarrow> Inl (lexicalError ''Unknown punctuation: null'' startLine startColumn)
         | Some c \<Rightarrow>
             if c = CHR '';'' then tok ''SEMICOLON'' c
             else if c = CHR '','' then tok ''COMMA'' c
             else if c = CHR ''.'' then tok ''DOT'' c
             else if c = CHR ''('' then tok ''LEFT_PAREN'' c
             else if c = CHR '')'' then tok ''RIGHT_PAREN'' c
             else if c = CHR ''['' then tok ''LEFT_BRACKET'' c
             else if c = CHR '']'' then tok ''RIGHT_BRACKET'' c
             else Inl (lexicalError (''Unknown punctuation: '' @ [c]) startLine startColumn))"

definition slice :: "string \<Rightarrow> nat \<Rightarrow> nat \<Rightarrow> string" where
  "slice s a b = take (b - a) (drop a s)"

definition pushed :: "exn + token \<times> lexer \<Rightarrow> exn + lexer" where
  \<comment> \<open>\<open>this.tokens.push(this.readX())\<close>: an exception of the reader goes through.\<close>
  "pushed r = (case r of Inl e \<Rightarrow> Inl e | Inr (t, lx') \<Rightarrow> Inr (push t lx'))"

definition pushedIf :: "token option \<times> lexer \<Rightarrow> exn + lexer" where
  \<comment> \<open>\<open>const token = this.readX(); if (token) { this.tokens.push(token); }\<close>\<close>
  "pushedIf r = (case r of (None, lx') \<Rightarrow> Inr lx' | (Some t, lx') \<Rightarrow> Inr (push t lx'))"

definition tokenize_step :: "lexer \<Rightarrow> exn + lexer" where
  \<comment> \<open>One round of the \<open>while (this.position < this.input.length)\<close> loop of
      \<open>tokenize\<close>, up to its \<open>continue\<close> or \<open>throw\<close>.\<close>
  "tokenize_step lx =
     (let char = input lx ! position lx in
      if isSpace char \<and> char \<noteq> CHR 0x0A then
        (if includeWhitespace lx then
           (let start = position lx; startLine = line lx; startColumn = column lx;
                lx' = skipWhitespace lx
            in Inr (push (Token ''WHITESPACE'' (slice (input lx) start (position lx'))
                      startLine startColumn start (position lx')) lx'))
         else Inr (skipWhitespace lx))
      else if char = CHR 0x0A then
        (let start = position lx; startLine = line lx; startColumn = column lx;
             lx' = advance lx
         in if includeWhitespace lx
            then Inr (push (Token ''NEWLINE'' [CHR 0x0A] startLine startColumn start (position lx')) lx')
            else Inr lx')
      else if char = CHR ''-'' \<and> peek lx = Some CHR ''-'' then pushedIf (readSingleLineComment lx)
      else if char = CHR ''#'' then pushedIf (readSingleLineComment lx)
      else if char = CHR ''/'' \<and> peek lx = Some CHR ''*'' then pushedIf (readMultiLineComment lx)
      else if char = CHR 0x27 then pushed (readString char lx)
      else if char = CHR 0x22 \<or> char = CHR 0x60 then pushed (readQuotedIdentifier char lx)
      else if isDigit char then pushed (readNumber lx)
      else if isIdentStart char then pushed (readIdentifier lx)
      else if char \<in> set ''=<>!+-*/%|'' then pushed (readOperator lx)
      else if char \<in> set '';,.()[]'' then pushed (readPunctuation lx)
      else Inl (lexicalError (''Unexpected character: '' @ [char]) (line lx) (column lx)))"

subsection \<open>Every round of the lexer moves forward\<close>

definition forward :: "lexer \<Rightarrow> lexer \<Rightarrow> bool" where
  \<comment> \<open>\<open>b\<close> is \<open>a\<close> after reading on: only position, line and column may differ.\<close>
  "forward a b \<longleftrightarrow>
     input b = input a \<and> tokens b = tokens a \<and> includeWhitespace b = includeWhitespace a \<and>
     includeComments b = includeComments a \<and> position a \<le> position b"

lemma forward_refl [simp]: "forward a a"
  by (simp add: forward_def)

lemma forward_trans: "forward a b \<Longrightarrow> forward b c \<Longrightarrow> forward a c"
  by (auto simp: forward_def)

lemma forward_advance [simp]: "forward a (advance a)"
  by (simp add: forward_def advance_def)

lemma forward_advance2: "forward a b \<Longrightarrow> forward a (advance b)"
  using forward_trans forward_advance by blast

lemma advance_progress: "position a < length (input a) \<Longrightarrow> position a < position (advance a)"
  by (simp add: advance_position)

lemma forward_readWhile: "forward lx (snd (readWhile p lx v))"
proof (induction p lx v rule: readWhile.induct)
  case (1 p lx v)
  show ?case
  proof (cases "current lx")
    case None
    then show ?thesis by (simp add: readWhile.simps [of p lx v])
  next
    case (Some c)
    show ?thesis
    proof (cases "p c")
      case True
      with Some 1 have "forward (advance lx) (snd (readWhile p lx v))" by (simp add: readWhile.simps [of p lx v])
      then show ?thesis using forward_trans forward_advance by blast
    next
      case False
      with Some show ?thesis by (simp add: readWhile.simps [of p lx v])
    qed
  qed
qed

lemma readWhile_progress:
  assumes "current lx = Some c" and "p c"
  shows "position lx < position (snd (readWhile p lx v))"
proof -
  have "position lx < position (advance lx)"
    using assms(1) by (simp add: advance_progress current_Some_lt)
  moreover have "forward (advance lx) (snd (readWhile p (advance lx) (v @ [c])))"
    by (rule forward_readWhile)
  ultimately show ?thesis using assms by (simp add: forward_def readWhile.simps [of p lx v])
qed

lemma forward_readQuotedIdentifier_loop: "forward lx (snd (readQuotedIdentifier_loop q lx v))"
proof (induction q lx v rule: readQuotedIdentifier_loop.induct)
  case (1 q lx v)
  show ?case
  proof (cases "current lx")
    case None
    then show ?thesis by (simp add: readQuotedIdentifier_loop.simps [of q lx v])
  next
    case (Some c)
    note cur = Some
    show ?thesis
    proof (cases "c = q")
      case True
      with cur show ?thesis by (simp add: readQuotedIdentifier_loop.simps [of q lx v])
    next
      case nq: False
      show ?thesis
      proof (cases "c = CHR 0x5C")
        case False
        with cur nq 1(3) have "forward (advance lx) (snd (readQuotedIdentifier_loop q lx v))"
          by (simp add: readQuotedIdentifier_loop.simps [of q lx v])
        then show ?thesis using forward_trans forward_advance by blast
      next
        case bs: True
        show ?thesis
        proof (cases "current (advance lx)")
          case None
          with cur nq bs 1(1) have "forward (advance lx) (snd (readQuotedIdentifier_loop q lx v))"
            by (simp add: readQuotedIdentifier_loop.simps [of q lx v])
          then show ?thesis using forward_trans forward_advance by blast
        next
          case (Some e)
          with cur nq bs 1(2)
          have "forward (advance (advance lx)) (snd (readQuotedIdentifier_loop q lx v))"
            by (simp add: readQuotedIdentifier_loop.simps [of q lx v])
          then show ?thesis using forward_trans forward_advance by blast
        qed
      qed
    qed
  qed
qed

lemma forward_readString_loop: "forward lx (snd (readString_loop q lx v))"
proof (induction q lx v rule: readString_loop.induct)
  case (1 q lx v)
  show ?case
  proof (cases "current lx")
    case None
    then show ?thesis by (simp add: readString_loop.simps [of q lx v])
  next
    case (Some c)
    note cur = Some
    show ?thesis
    proof (cases "c = q")
      case True
      with cur show ?thesis by (simp add: readString_loop.simps [of q lx v])
    next
      case nq: False
      show ?thesis
      proof (cases "c = CHR 0x5C")
        case False
        with cur nq 1(3) have "forward (advance lx) (snd (readString_loop q lx v))"
          by (simp add: readString_loop.simps [of q lx v])
        then show ?thesis using forward_trans forward_advance by blast
      next
        case bs: True
        show ?thesis
        proof (cases "current (advance lx)")
          case None
          with cur nq bs 1(1) have "forward (advance lx) (snd (readString_loop q lx v))"
            by (simp add: readString_loop.simps [of q lx v])
          then show ?thesis using forward_trans forward_advance by blast
        next
          case (Some e)
          with cur nq bs 1(2)
          have "forward (advance (advance lx)) (snd (readString_loop q lx v))"
            by (simp add: readString_loop.simps [of q lx v])
          then show ?thesis using forward_trans forward_advance by blast
        qed
      qed
    qed
  qed
qed

lemma forward_readMultiLineComment_loop: "forward lx (snd (readMultiLineComment_loop lx v))"
proof (induction lx v rule: readMultiLineComment_loop.induct)
  case (1 lx v)
  show ?case
  proof (cases "current lx")
    case None
    then show ?thesis by (simp add: readMultiLineComment_loop.simps [of lx v])
  next
    case (Some c)
    show ?thesis
    proof (cases "c = CHR ''*'' \<and> peek lx = Some CHR ''/''")
      case True
      with Some show ?thesis by (simp add: forward_advance2 readMultiLineComment_loop.simps [of lx v])
    next
      case False
      with Some 1 have "forward (advance lx) (snd (readMultiLineComment_loop lx v))"
        by (auto simp: readMultiLineComment_loop.simps [of lx v])
      then show ?thesis using forward_trans forward_advance by blast
    qed
  qed
qed

definition lexical_exn :: "exn \<Rightarrow> bool" where
  "lexical_exn e =
     (case e of
        SQLError m k l c x \<Rightarrow> k = Code ''LEXICAL_ERROR'' \<or> k = Code ''UNTERMINATED_STRING''
      | JSError m \<Rightarrow> False)"

definition stepped :: "lexer \<Rightarrow> lexer \<Rightarrow> bool" where
  "stepped a b \<longleftrightarrow>
     input b = input a \<and> includeWhitespace b = includeWhitespace a \<and>
     includeComments b = includeComments a \<and> position a < position b \<and>
     (\<exists>ts. tokens b = tokens a @ ts \<and> list_all (\<lambda>t. tok_type t \<noteq> ''EOF'') ts)"

lemma lexical_lexicalError [simp]: "lexical_exn (lexicalError m l c)"
  by (simp add: lexical_exn_def lexicalError_def)

lemma lexical_unterminatedString [simp]: "lexical_exn (unterminatedString l c)"
  by (simp add: lexical_exn_def unterminatedString_def)

lemma stepped_plain: "forward a b \<Longrightarrow> position a < position b \<Longrightarrow> stepped a b"
  by (simp add: stepped_def forward_def)

lemma stepped_push:
  "forward a b \<Longrightarrow> position a < position b \<Longrightarrow> tok_type t \<noteq> ''EOF'' \<Longrightarrow> stepped a (push t b)"
  by (simp add: stepped_def forward_def push_def)

lemma tok_type_Token [simp]: "tok_type (Token ty v l c s e) = ty"
  by (simp add: Token_def)

lemma KEYWORDS_not_EOF: "map_of KEYWORDS u = Some t \<Longrightarrow> t \<noteq> ''EOF''"
proof -
  assume a: "map_of KEYWORDS u = Some t"
  have all: "list_all (\<lambda>kv. snd kv \<noteq> ''EOF'') KEYWORDS" by code_simp
  from a have "(u, t) \<in> set KEYWORDS" by (rule map_of_SomeD)
  with all show ?thesis by (auto simp: list_all_iff)
qed



lemma readIdentifier_Inr:
  assumes "current lx = Some c" and "isIdentStart c" and "readIdentifier lx = Inr (t, lx')"
  shows "forward lx lx' \<and> position lx < position lx' \<and> tok_type t \<noteq> ''EOF''"
proof -
  obtain v l where rw: "readWhile isIdentChar lx [] = (v, l)" by (cases "readWhile isIdentChar lx []")
  have f: "forward lx l" using forward_readWhile [of lx isIdentChar "[]"] rw by simp
  have p: "position lx < position l"
    using readWhile_progress [of lx c isIdentChar "[]"] assms(1,2) rw by (simp add: isIdentChar_def)
  from assms rw have "lx' = l" and
    "t = Token (case map_of KEYWORDS (toUpperCase v) of Some t \<Rightarrow> t | None \<Rightarrow> ''IDENTIFIER'') v
           (line lx) (column lx) (position lx) (position l)"
    by (auto simp: readIdentifier_def Let_def)
  then show ?thesis using f p by (auto split: option.splits dest: KEYWORDS_not_EOF)
qed

lemma readIdentifier_Inl: "readIdentifier lx = Inl e \<Longrightarrow> lexical_exn e"
  by (auto simp: readIdentifier_def Let_def split: option.splits if_splits prod.splits)

lemma readQuotedIdentifier_Inr:
  assumes "current lx = Some c" and "readQuotedIdentifier q lx = Inr (t, lx')"
  shows "forward lx lx' \<and> position lx < position lx' \<and> tok_type t \<noteq> ''EOF''"
proof -
  obtain v l where rw: "readQuotedIdentifier_loop q (advance lx) [] = (v, l)"
    by (cases "readQuotedIdentifier_loop q (advance lx) []")
  have f: "forward (advance lx) l" using forward_readQuotedIdentifier_loop [of "advance lx" q "[]"] rw by simp
  have p: "position lx < position (advance lx)"
    using assms(1) by (simp add: advance_progress current_Some_lt)
  from assms rw have "lx' = advance l" and "tok_type t = ''IDENTIFIER''"
    by (auto simp: readQuotedIdentifier_def Let_def split: option.splits)
  then show ?thesis using f p forward_trans [OF forward_advance f] forward_advance [of l]
    by (auto simp: forward_def)
qed

lemma readQuotedIdentifier_Inl: "readQuotedIdentifier q lx = Inl e \<Longrightarrow> lexical_exn e"
  by (auto simp: readQuotedIdentifier_def Let_def split: option.splits if_splits prod.splits)

lemma readString_Inr:
  assumes "current lx = Some c" and "readString q lx = Inr (t, lx')"
  shows "forward lx lx' \<and> position lx < position lx' \<and> tok_type t \<noteq> ''EOF''"
proof -
  obtain v l where rw: "readString_loop q (advance lx) [] = (v, l)"
    by (cases "readString_loop q (advance lx) []")
  have f: "forward (advance lx) l" using forward_readString_loop [of "advance lx" q "[]"] rw by simp
  have p: "position lx < position (advance lx)"
    using assms(1) by (simp add: advance_progress current_Some_lt)
  from assms rw have "lx' = advance l" and "tok_type t = ''STRING''"
    by (auto simp: readString_def Let_def split: option.splits)
  then show ?thesis using f p forward_trans [OF forward_advance f] forward_advance [of l]
    by (auto simp: forward_def)
qed

lemma readString_Inl: "readString q lx = Inl e \<Longrightarrow> lexical_exn e"
  by (auto simp: readString_def Let_def split: option.splits if_splits prod.splits)

lemma readOperator_Inr:
  assumes "current lx = Some c" and "readOperator lx = Inr (t, lx')"
  shows "forward lx lx' \<and> position lx < position lx' \<and> tok_type t \<noteq> ''EOF''"
proof -
  have p: "position lx < position (advance lx)"
    using assms(1) by (simp add: advance_progress current_Some_lt)
  have q: "position lx < position (advance (advance lx))"
    using p forward_advance [of "advance lx"] by (simp add: forward_def)
  from assms(2) have "(lx' = advance lx \<or> lx' = advance (advance lx)) \<and> tok_type t \<noteq> ''EOF''"
    unfolding readOperator_def Let_def assms(1) option.case
    by (auto split: if_splits)
  then show ?thesis using p q forward_advance2 [OF forward_advance] by auto
qed

lemma readOperator_Inl: "readOperator lx = Inl e \<Longrightarrow> lexical_exn e"
  unfolding readOperator_def Let_def
  by (auto split: option.splits if_splits)

lemma readPunctuation_Inr:
  assumes "current lx = Some c" and "readPunctuation lx = Inr (t, lx')"
  shows "forward lx lx' \<and> position lx < position lx' \<and> tok_type t \<noteq> ''EOF''"
proof -
  have p: "position lx < position (advance lx)"
    using assms(1) by (simp add: advance_progress current_Some_lt)
  from assms(2) have "lx' = advance lx \<and> tok_type t \<noteq> ''EOF''"
    unfolding readPunctuation_def Let_def assms(1) option.case
    by (auto split: if_splits)
  then show ?thesis using p by auto
qed

lemma readPunctuation_Inl: "readPunctuation lx = Inl e \<Longrightarrow> lexical_exn e"
  unfolding readPunctuation_def Let_def
  by (auto split: option.splits if_splits)

lemma readNumber_Inl: "readNumber lx = Inl e \<Longrightarrow> lexical_exn e"
  unfolding readNumber_def Let_def
  by (auto split: option.splits if_splits prod.splits)

lemma readNumber_Inr:
  assumes "current lx = Some c" and "isDigit c" and "readNumber lx = Inr (t, lx')"
  shows "forward lx lx' \<and> position lx < position lx' \<and> tok_type t \<noteq> ''EOF''"
proof -
  obtain v1 l1 where r1: "readWhile isDigit lx [] = (v1, l1)" by (cases "readWhile isDigit lx []")
  have f1: "forward lx l1" using forward_readWhile [of lx isDigit "[]"] r1 by simp
  have p1: "position lx < position l1"
    using readWhile_progress [of lx c isDigit "[]"] assms(1,2) r1 by simp
  have fw: "\<And>a v. forward l1 a \<Longrightarrow> forward l1 (snd (readWhile isDigit a v))"
    using forward_trans forward_readWhile by blast
  have "forward l1 lx' \<and> tok_type t = ''NUMBER''"
    using assms(3) unfolding readNumber_def Let_def r1 prod.case
    by (auto split: option.splits if_splits prod.splits
             intro: forward_advance2 dest!: arg_cong [where f = snd]
             simp: fw forward_advance2)
  then show ?thesis using f1 p1 by (auto simp: forward_def)
qed


lemma readSingleLineComment_stepped:
  assumes "current lx = Some c"
  shows "\<exists>lx'. pushedIf (readSingleLineComment lx) = Inr lx' \<and> stepped lx lx'"
proof -
  let ?l1 = "if current lx = Some CHR ''-'' then advance (advance lx) else advance lx"
  obtain v l2 where rw: "readWhile (\<lambda>c. c \<noteq> CHR 0x0A) ?l1 [] = (v, l2)"
    by (cases "readWhile (\<lambda>c. c \<noteq> CHR 0x0A) ?l1 []")
  have p: "position lx < position (advance lx)"
    using assms by (simp add: advance_progress current_Some_lt)
  have f1: "forward (advance lx) ?l1" by simp
  have f2: "forward ?l1 l2"
    using forward_readWhile [of ?l1 "\<lambda>c. c \<noteq> CHR 0x0A" "[]"] rw by simp
  have f: "forward lx l2" and q: "position lx < position l2"
    using p f1 f2 forward_advance [of lx] by (auto simp: forward_def)
  show ?thesis
    using rw f q
    by (auto simp: readSingleLineComment_def pushedIf_def Let_def
             intro: stepped_plain stepped_push)
qed

lemma readMultiLineComment_stepped:
  assumes "current lx = Some c"
  shows "\<exists>lx'. pushedIf (readMultiLineComment lx) = Inr lx' \<and> stepped lx lx'"
proof -
  obtain v l2 where rw: "readMultiLineComment_loop (advance (advance lx)) [] = (v, l2)"
    by (cases "readMultiLineComment_loop (advance (advance lx)) []")
  have p: "position lx < position (advance lx)"
    using assms by (simp add: advance_progress current_Some_lt)
  have f2: "forward (advance (advance lx)) l2"
    using forward_readMultiLineComment_loop [of "advance (advance lx)" "[]"] rw by simp
  have f: "forward lx l2" and q: "position lx < position l2"
    using p f2 forward_advance [of lx] forward_advance [of "advance lx"] by (auto simp: forward_def)
  show ?thesis
    using rw f q
    by (auto simp: readMultiLineComment_def pushedIf_def Let_def
             intro: stepped_plain stepped_push)
qed

lemma pushed_Inr:
  assumes "pushed r = Inr lx'"
    and "\<And>t l. r = Inr (t, l) \<Longrightarrow> forward lx l \<and> position lx < position l \<and> tok_type t \<noteq> ''EOF''"
  shows "stepped lx lx'"
  using assms by (cases r) (auto simp: pushed_def intro: stepped_push)

lemma pushed_Inl:
  assumes "pushed r = Inl e" and "\<And>e. r = Inl e \<Longrightarrow> lexical_exn e"
  shows "lexical_exn e"
  using assms by (cases r) (auto simp: pushed_def)

lemma current_nth: "position lx < length (input lx) \<Longrightarrow> current lx = Some (input lx ! position lx)"
  by (simp add: current_def)

lemma tokenize_step_Inr:
  assumes lt: "position lx < length (input lx)" and st: "tokenize_step lx = Inr lx'"
  shows "stepped lx lx'"
proof -
  let ?c = "input lx ! position lx"
  have cur: "current lx = Some ?c" using lt by (rule current_nth)
  have adv: "position lx < position (advance lx)" using lt by (rule advance_progress)
  have ws: "isSpace ?c \<and> ?c \<noteq> CHR 0x0A \<Longrightarrow>
      forward lx (skipWhitespace lx) \<and> position lx < position (skipWhitespace lx)"
    unfolding skipWhitespace_def
    using forward_readWhile [of lx "\<lambda>c. isSpace c \<and> c \<noteq> CHR 0x0A" "[]"]
      readWhile_progress [of lx ?c "\<lambda>c. isSpace c \<and> c \<noteq> CHR 0x0A" "[]"] cur
    by simp
  from st show ?thesis
    unfolding tokenize_step_def Let_def
    apply (simp only: split: if_splits)
    subgoal using ws by (auto intro: stepped_push stepped_plain)
    subgoal using ws by (auto intro: stepped_push stepped_plain)
    subgoal using adv by (auto intro: stepped_push stepped_plain)
    subgoal using adv by (auto intro: stepped_push stepped_plain)
    subgoal using readSingleLineComment_stepped [OF cur] by auto
    subgoal using readSingleLineComment_stepped [OF cur] by auto
    subgoal using readMultiLineComment_stepped [OF cur] by auto
    subgoal by (erule pushed_Inr) (rule readString_Inr [OF cur])
    subgoal by (erule pushed_Inr) (rule readQuotedIdentifier_Inr [OF cur])
    subgoal by (erule pushed_Inr) (rule readNumber_Inr [OF cur], simp)
    subgoal by (erule pushed_Inr) (rule readIdentifier_Inr [OF cur], simp)
    subgoal by (erule pushed_Inr) (rule readOperator_Inr [OF cur])
    subgoal by (erule pushed_Inr) (rule readPunctuation_Inr [OF cur])
    subgoal by simp
    done
qed

lemma tokenize_step_Inl:
  assumes lt: "position lx < length (input lx)" and st: "tokenize_step lx = Inl e"
  shows "lexical_exn e"
proof -
  let ?c = "input lx ! position lx"
  have cur: "current lx = Some ?c" using lt by (rule current_nth)
  from st show ?thesis
    unfolding tokenize_step_def Let_def
    apply (simp only: split: if_splits)
    subgoal by simp
    subgoal by simp
    subgoal by simp
    subgoal by simp
    subgoal using readSingleLineComment_stepped [OF cur] by auto
    subgoal using readSingleLineComment_stepped [OF cur] by auto
    subgoal using readMultiLineComment_stepped [OF cur] by auto
    subgoal by (erule pushed_Inl) (rule readString_Inl)
    subgoal by (erule pushed_Inl) (rule readQuotedIdentifier_Inl)
    subgoal by (erule pushed_Inl) (rule readNumber_Inl)
    subgoal by (erule pushed_Inl) (rule readIdentifier_Inl)
    subgoal by (erule pushed_Inl) (rule readOperator_Inl)
    subgoal by (erule pushed_Inl) (rule readPunctuation_Inl)
    subgoal by auto
    done
qed

function tokenize_loop :: "lexer \<Rightarrow> exn + lexer" where
  "tokenize_loop lx =
     (if position lx < length (input lx)
      then (case tokenize_step lx of Inl e \<Rightarrow> Inl e | Inr lx' \<Rightarrow> tokenize_loop lx')
      else Inr lx)"
  by pat_completeness auto
termination
proof (relation "measure (\<lambda>lx. length (input lx) - position lx)")
  show "wf (measure (\<lambda>lx. length (input lx) - position lx))" by simp
next
  fix lx lx'
  assume "position lx < length (input lx)" and "tokenize_step lx = Inr lx'"
  then have "stepped lx lx'" by (rule tokenize_step_Inr)
  with \<open>position lx < length (input lx)\<close>
  show "(lx', lx) \<in> measure (\<lambda>lx. length (input lx) - position lx)"
    by (auto simp: stepped_def)
qed

declare tokenize_loop.simps [simp del]

definition new_Lexer :: "string \<Rightarrow> bool \<Rightarrow> bool \<Rightarrow> lexer" where
  "new_Lexer s ws cm =
     \<lparr>input = s, position = 0, line = 1, column = 1, tokens = [],
      includeWhitespace = ws, includeComments = cm\<rparr>"

definition tokenize :: "lexer \<Rightarrow> exn + token list" where
  "tokenize lx0 =
     (case tokenize_loop (lx0\<lparr>tokens := [], position := 0, line := 1, column := 1\<rparr>) of
        Inl e \<Rightarrow> Inl e
      | Inr lx \<Rightarrow>
          Inr (tokens lx @ [Token ''EOF'' [] (line lx) (column lx) (position lx) (position lx)]))"

lemma tokenize_loop_Inr:
  "tokenize_loop lx = Inr lx' \<Longrightarrow>
     \<exists>ts. tokens lx' = tokens lx @ ts \<and> list_all (\<lambda>t. tok_type t \<noteq> ''EOF'') ts"
proof (induction lx rule: tokenize_loop.induct)
  case (1 lx)
  show ?case
  proof (cases "position lx < length (input lx)")
    case False
    with "1.prems" show ?thesis by (simp add: tokenize_loop.simps [of lx])
  next
    case True
    with "1.prems" obtain l where s: "tokenize_step lx = Inr l" and r: "tokenize_loop l = Inr lx'"
      by (auto simp: tokenize_loop.simps [of lx] split: sum.splits)
    from True s have "stepped lx l" by (rule tokenize_step_Inr)
    moreover from "1.IH" [OF True s r]
    obtain ts where "tokens lx' = tokens l @ ts" "list_all (\<lambda>t. tok_type t \<noteq> ''EOF'') ts"
      by blast
    ultimately show ?thesis by (auto simp: stepped_def)
  qed
qed

lemma tokenize_loop_Inl: "tokenize_loop lx = Inl e \<Longrightarrow> lexical_exn e"
proof (induction lx rule: tokenize_loop.induct)
  case (1 lx)
  show ?case
  proof (cases "position lx < length (input lx)")
    case False
    with "1.prems" show ?thesis by (simp add: tokenize_loop.simps [of lx])
  next
    case True
    show ?thesis
    proof (cases "tokenize_step lx")
      case (Inl e')
      with True "1.prems" have "e' = e" by (simp add: tokenize_loop.simps [of lx])
      with True Inl show ?thesis using tokenize_step_Inl by blast
    next
      case (Inr l)
      with True "1.prems" have "tokenize_loop l = Inl e" by (simp add: tokenize_loop.simps [of lx])
      with "1.IH" [OF True Inr] show ?thesis .
    qed
  qed
qed

section \<open>The syntax tree (\<open>ast/ast-nodes.js\<close>)\<close>

text \<open>
  A JavaScript number is a double: a finite one is modelled by the rational it is equal to
  (\<open>Num\<close>, with \<open>Num 0\<close> for \<open>+0\<close>), and the others are \<open>-0\<close> (\<open>NegZero\<close>), \<open>NaN\<close>, \<open>Infinity\<close>
  (\<open>Infinity False\<close>) and \<open>-Infinity\<close> (\<open>Infinity True\<close>). The conversions that make and print
  numbers are with the parser (\<open>numberValue\<close>) and with the analyzer (\<open>numToString\<close>).
\<close>

datatype jsnum = Num rat | NegZero | NaN | Infinity bool

datatype litval = LStr string | LNumber jsnum | LBool bool | LNull

text \<open>
  One constructor for each node class, its fields in the order of the class's
  properties; a field that can be \<open>null\<close> (or absent) is an \<open>option\<close>. The last field
  of an expression node is the \<open>alias\<close> property that \<open>parseSelectColumns\<close> may add to it.
  The four \<open>Frame...\<close> constructors are the plain objects \<open>parseFrameBound\<close> returns,
  whose \<open>type\<close> is \<open>UNBOUNDED\<close>, \<open>CURRENT_ROW\<close>, \<open>INTERVAL\<close> or \<open>OFFSET\<close>.

  \<^item> \<open>SelectStatement columns from where groupBy having orderBy limit offset distinct with\<close>
  \<^item> \<open>InsertStatement table columns values\<close>
  \<^item> \<open>UpdateStatement table set where\<close>
  \<^item> \<open>DeleteStatement from where\<close>
  \<^item> \<open>UnionStatement left right unionType all orderBy limit offset with\<close>
  \<^item> \<open>WithClause recursive expressions\<close>, \<open>CTEExpression name columns query\<close>
  \<^item> \<open>WindowFunction function over alias\<close>, \<open>OverClause partitionBy orderBy frame\<close>,
    \<open>WindowFrame type start end\<close>
  \<^item> \<open>FrameUnbounded direction\<close>, \<open>FrameCurrentRow\<close>, \<open>FrameInterval value unit direction\<close>,
    \<open>FrameOffset value direction\<close>
  \<^item> \<open>BinaryExpression left operator right alias\<close>, \<open>UnaryExpression operator operand alias\<close>
  \<^item> \<open>FunctionCall name arguments isExtract distinct alias\<close>
  \<^item> \<open>CaseExpression expression whenClauses elseClause alias\<close>, \<open>WhenClause condition result\<close>
  \<^item> \<open>Identifier name table\<close>, \<open>TableReference name alias schema\<close>,
    \<open>ColumnReference name table alias\<close>, \<open>Wildcard\<close> (its name is \<open>*\<close>)
  \<^item> \<open>Literal value dataType alias\<close>
  \<^item> \<open>FromClause tables joins\<close>, \<open>WhereClause condition\<close>, \<open>JoinClause joinType table condition\<close>,
    \<open>GroupByClause columns\<close>, \<open>HavingClause condition\<close>, \<open>OrderByClause columns\<close>,
    \<open>OrderByColumn column direction\<close>, \<open>LimitClause count offset\<close>
  \<^item> \<open>Assignment column value\<close>, \<open>ValuesList values\<close>, \<open>BetweenRange start end\<close>,
    \<open>Interval value unit alias\<close>, \<open>SubQuery query alias\<close>
\<close>

datatype node =
    SelectStatement "node list" "node option" "node option" "node option" "node option"
      "node option" "node option" "node option" bool "node option"
  | InsertStatement node "string list" "node list"
  | UpdateStatement node "node list" "node option"
  | DeleteStatement node "node option"
  | UnionStatement node node string bool "node option" "node option" "node option" "node option"
  | WithClause bool "node list"
  | CTEExpression string "string list option" node
  | WindowFunction node node "string option"
  | OverClause "node list option" "node list option" "node option"
  | WindowFrame string "node option" "node option"
  | FrameUnbounded string
  | FrameCurrentRow
  | FrameInterval node string string
  | FrameOffset node string
  | BinaryExpression node string node "string option"
  | UnaryExpression string node "string option"
  | FunctionCall string "node list" bool bool "string option"
  | CaseExpression "node option" "node list" "node option" "string option"
  | WhenClause node node
  | Identifier string "string option"
  | TableReference string "string option" "string option"
  | ColumnReference string "string option" "string option"
  | Wildcard
  | Literal litval string "string option"
  | FromClause "node list" "node list"
  | WhereClause node
  | JoinClause string node "node option"
  | GroupByClause "node list"
  | HavingClause node
  | OrderByClause "node list"
  | OrderByColumn node string
  | LimitClause node "node option"
  | Assignment string node
  | ValuesList "node list"
  | BetweenRange node node
  | Interval node string "string option"
  | SubQuery node "string option"

fun node_type :: "node \<Rightarrow> string" where
  \<comment> \<open>The \<open>type\<close> property. \<open>AST.windowFrame\<close> passes the frame's own \<open>type\<close> among the
      properties, which replaces the class name.\<close>
  "node_type (SelectStatement _ _ _ _ _ _ _ _ _ _) = ''SelectStatement''"
| "node_type (InsertStatement _ _ _) = ''InsertStatement''"
| "node_type (UpdateStatement _ _ _) = ''UpdateStatement''"
| "node_type (DeleteStatement _ _) = ''DeleteStatement''"
| "node_type (UnionStatement _ _ _ _ _ _ _ _) = ''UnionStatement''"
| "node_type (WithClause _ _) = ''WithClause''"
| "node_type (CTEExpression _ _ _) = ''CTEExpression''"
| "node_type (WindowFunction _ _ _) = ''WindowFunction''"
| "node_type (OverClause _ _ _) = ''OverClause''"
| "node_type (WindowFrame ty _ _) = ty"
| "node_type (FrameUnbounded _) = ''UNBOUNDED''"
| "node_type FrameCurrentRow = ''CURRENT_ROW''"
| "node_type (FrameInterval _ _ _) = ''INTERVAL''"
| "node_type (FrameOffset _ _) = ''OFFSET''"
| "node_type (BinaryExpression _ _ _ _) = ''BinaryExpression''"
| "node_type (UnaryExpression _ _ _) = ''UnaryExpression''"
| "node_type (FunctionCall _ _ _ _ _) = ''FunctionCall''"
| "node_type (CaseExpression _ _ _ _) = ''CaseExpression''"
| "node_type (WhenClause _ _) = ''WhenClause''"
| "node_type (Identifier _ _) = ''Identifier''"
| "node_type (TableReference _ _ _) = ''TableReference''"
| "node_type (ColumnReference _ _ _) = ''ColumnReference''"
| "node_type Wildcard = ''Wildcard''"
| "node_type (Literal _ _ _) = ''Literal''"
| "node_type (FromClause _ _) = ''FromClause''"
| "node_type (WhereClause _) = ''WhereClause''"
| "node_type (JoinClause _ _ _) = ''JoinClause''"
| "node_type (GroupByClause _) = ''GroupByClause''"
| "node_type (HavingClause _) = ''HavingClause''"
| "node_type (OrderByClause _) = ''OrderByClause''"
| "node_type (OrderByColumn _ _) = ''OrderByColumn''"
| "node_type (LimitClause _ _) = ''LimitClause''"
| "node_type (Assignment _ _) = ''Assignment''"
| "node_type (ValuesList _) = ''ValuesList''"
| "node_type (BetweenRange _ _) = ''BetweenRange''"
| "node_type (Interval _ _ _) = ''Interval''"
| "node_type (SubQuery _ _) = ''SubQuery''"

fun setAlias :: "string \<Rightarrow> node \<Rightarrow> node" where
  \<comment> \<open>\<open>expr.alias = alias\<close> on a node the expression parser returns.\<close>
  "setAlias a (WindowFunction f ov _) = WindowFunction f ov (Some a)"
| "setAlias a (BinaryExpression l ope r _) = BinaryExpression l ope r (Some a)"
| "setAlias a (UnaryExpression ope x _) = UnaryExpression ope x (Some a)"
| "setAlias a (FunctionCall n args ex di _) = FunctionCall n args ex di (Some a)"
| "setAlias a (CaseExpression e ws el _) = CaseExpression e ws el (Some a)"
| "setAlias a (ColumnReference n t _) = ColumnReference n t (Some a)"
| "setAlias a (Literal v d _) = Literal v d (Some a)"
| "setAlias a (Interval v u _) = Interval v u (Some a)"
| "setAlias a (SubQuery q _) = SubQuery q (Some a)"
| "setAlias a (TableReference n _ s) = TableReference n (Some a) s"
| "setAlias a x = x"


section \<open>The parser (\<open>parser/parser.js\<close>)\<close>

text \<open>
  The parser's state is its token list and its position; \<open>strict\<close> is the one option
  it reads. A parsing function returns \<open>Ok\<close> with its value and the new state, or
  \<open>Throw\<close> with the exception it raises. The functions call each other recursively, so
  each takes a bound on the depth of its calls and the rounds of its loops, and returns
  \<open>OutOfFuel\<close> when the bound is used up.
\<close>

record parser =
  p_tokens :: "token list"
  p_position :: nat
  strict :: bool

datatype 'a res = Ok 'a parser | Throw exn | OutOfFuel

definition andThen :: "'a res \<Rightarrow> ('a \<Rightarrow> parser \<Rightarrow> 'b res) \<Rightarrow> 'b res" where
  \<comment> \<open>Sequencing: an exception of the first call ends the function.\<close>
  "andThen r f = (case r of Ok a p \<Rightarrow> f a p | Throw e \<Rightarrow> Throw e | OutOfFuel \<Rightarrow> OutOfFuel)"

definition typeError :: exn where
  \<comment> \<open>Reading a property of \<open>null\<close>.\<close>
  "typeError = JSError ''TypeError: Cannot read properties of null''"

definition new_Parser :: "token list \<Rightarrow> bool \<Rightarrow> parser" where
  "new_Parser toks st =
     \<lparr>p_tokens = filter (\<lambda>t. tok_type t \<notin> {''WHITESPACE'', ''NEWLINE'', ''COMMENT''}) toks,
      p_position = 0, strict = st\<rparr>"

definition pcurrent :: "parser \<Rightarrow> token option" where
  "pcurrent p = (if p_position p \<ge> length (p_tokens p) then None
                 else Some (p_tokens p ! p_position p))"

definition padvance :: "parser \<Rightarrow> parser" where
  "padvance p = (if p_position p < length (p_tokens p) then p\<lparr>p_position := p_position p + 1\<rparr>
                 else p)"

definition match :: "string \<Rightarrow> parser \<Rightarrow> bool" where
  "match ty p = (case pcurrent p of None \<Rightarrow> False | Some t \<Rightarrow> tok_type t = ty)"

definition matchAny :: "string list \<Rightarrow> parser \<Rightarrow> bool" where
  "matchAny tys p = (case pcurrent p of None \<Rightarrow> False | Some t \<Rightarrow> tok_type t \<in> set tys)"

definition consume :: "string \<Rightarrow> parser \<Rightarrow> token option \<times> parser" where
  "consume ty p = (if match ty p then (pcurrent p, padvance p) else (None, p))"

definition orOne :: "nat \<Rightarrow> nat" where
  \<comment> \<open>\<open>n || 1\<close>\<close>
  "orOne n = (if n = 0 then 1 else n)"

definition lastLine :: "parser \<Rightarrow> nat" where
  \<comment> \<open>\<open>this.tokens[this.tokens.length - 1]?.line || 1\<close>\<close>
  "lastLine p = (if p_tokens p = [] then 1 else orOne (tok_line (last (p_tokens p))))"

definition lastColumn :: "parser \<Rightarrow> nat" where
  "lastColumn p = (if p_tokens p = [] then 1 else orOne (tok_column (last (p_tokens p))))"

definition expect :: "string \<Rightarrow> parser \<Rightarrow> token res" where
  "expect ty p =
     (case pcurrent p of
        None \<Rightarrow> Throw (unexpectedEnd (lastLine p) (lastColumn p))
      | Some t \<Rightarrow>
          if tok_type t = ''EOF'' then Throw (unexpectedEnd (lastLine p) (lastColumn p))
          else if tok_type t \<noteq> ty
            then Throw (unexpectedToken ty (tok_type t) (tok_line t) (tok_column t))
          else Ok t (padvance p))"

definition canBeAlias :: "token \<Rightarrow> bool" where
  "canBeAlias t =
     (tok_type t = ''IDENTIFIER'' \<or>
      tok_type t \<in> set [''DATE'', ''TIME'', ''TIMESTAMP'', ''YEAR'', ''MONTH'', ''DAY'', ''HOUR'',
        ''MINUTE'', ''SECOND'', ''COUNT'', ''SUM'', ''AVG'', ''MIN'', ''MAX'', ''ROW_NUMBER'', ''RANK'',
        ''DENSE_RANK'', ''LEAD'', ''LAG'', ''FIRST_VALUE'', ''LAST_VALUE'', ''NTH_VALUE''])"

definition isFunctionKeyword :: "token \<Rightarrow> bool" where
  "isFunctionKeyword t =
     (tok_type t \<in> set [''DATE'', ''TIME'', ''TIMESTAMP'', ''COUNT'', ''SUM'', ''AVG'', ''MIN'', ''MAX'',
        ''YEAR'', ''MONTH'', ''DAY'', ''ROW_NUMBER'', ''RANK'', ''DENSE_RANK'', ''LEAD'', ''LAG'',
        ''FIRST_VALUE'', ''LAST_VALUE'', ''NTH_VALUE''])"

definition expectedError :: "string \<Rightarrow> parser \<Rightarrow> exn" where
  \<comment> \<open>\<open>new SQLError(msg, this.current()?.line || 1, this.current()?.column || 1)\<close>: the
      constructor takes the line as the code and the column as the line.\<close>
  "expectedError msg p =
     (case pcurrent p of
        None \<Rightarrow> SQLError msg (NumCode 1) 1 0 []
      | Some t \<Rightarrow> SQLError msg (NumCode (orOne (tok_line t))) (orOne (tok_column t)) 0 [])"

subsection \<open>Numbers of the runtime\<close>

text \<open>
  \<open>numberValue q\<close> is the Number value of the real \<open>q\<close>: the double nearest to it, the one
  with an even significand when two are equally near, an infinity when the rounded value
  would reach \<open>2^1024\<close>, and a zero of the sign of \<open>q\<close> when it rounds to zero.
  \<open>magnitude b x\<close> is the integer \<open>d\<close> with \<open>b^d \<le> x < b^(d + 1)\<close>, for \<open>0 < x\<close>; a double of
  magnitude \<open>d\<close> in base 2 is a multiple of \<open>2^(d - 52)\<close>, and of \<open>2^(- 1074)\<close> when it is
  subnormal. \<open>parseInt\<close> and \<open>parseFloat\<close> return the Number value of the decimal they read.
  (Beyond 20 significant digits the language lets an engine choose between two neighbouring
  doubles; the nearest one, which V8 returns, is one of them.)
\<close>

definition scale10 :: "rat \<Rightarrow> int \<Rightarrow> rat" where
  "scale10 x e = (if e \<ge> 0 then x * 10 ^ nat e else x / 10 ^ nat (- e))"

definition scale2 :: "rat \<Rightarrow> int \<Rightarrow> rat" where
  "scale2 x e = (if e \<ge> 0 then x * 2 ^ nat e else x / 2 ^ nat (- e))"

function digitCount :: "int \<Rightarrow> int \<Rightarrow> nat" where
  \<comment> \<open>The number of digits of \<open>n\<close> in base \<open>b\<close>; none for \<open>0\<close>.\<close>
  "digitCount b n = (if n \<le> 0 \<or> b < 2 then 0 else Suc (digitCount b (n div b)))"
  by pat_completeness auto
termination
proof (relation "measure (\<lambda>(b, n). nat n)")
  show "wf (measure (\<lambda>(b, n). nat n))" by simp
next
  fix b n :: int
  assume a: "\<not> (n \<le> 0 \<or> b < 2)"
  then have "n div b < n" by (simp add: int_div_less_self)
  moreover have "0 \<le> n div b" using a by (simp add: pos_imp_zdiv_nonneg_iff)
  ultimately show "((b, n div b), (b, n)) \<in> measure (\<lambda>(b, n). nat n)" using a by simp
qed

declare digitCount.simps [simp del]

definition magnitude :: "int \<Rightarrow> rat \<Rightarrow> int" where
  "magnitude b x =
     (let d = int (digitCount b (fst (quotient_of x))) - int (digitCount b (snd (quotient_of x)))
      in if (if d \<ge> 0 then of_int b ^ nat d \<le> x else 1 \<le> x * of_int b ^ nat (- d))
         then d else d - 1)"

definition roundHalfEven :: "rat \<Rightarrow> int" where
  "roundHalfEven m =
     (let f = \<lfloor>m\<rfloor>; r = m - of_int f
      in if r < 1 / 2 then f else if 1 / 2 < r then f + 1 else if even f then f else f + 1)"

definition roundDouble :: "rat \<Rightarrow> rat" where
  \<comment> \<open>\<open>0 < a\<close> rounded to 53 bits, with an exponent no less than \<open>- 1022\<close> and no upper limit.\<close>
  "roundDouble a =
     (let e = max (magnitude 2 a) (- 1022) - 52
      in scale2 (of_int (roundHalfEven (scale2 a (- e)))) e)"

definition numberValue :: "rat \<Rightarrow> jsnum" where
  "numberValue q =
     (if q = 0 then Num 0
      else
        (let m = roundDouble \<bar>q\<bar>
         in if m = 0 then (if q < 0 then NegZero else Num 0)
            else if 1024 \<le> magnitude 2 m then Infinity (q < 0)
            else Num (if q < 0 then - m else m)))"

definition digitVal :: "char \<Rightarrow> nat" where
  "digitVal c = of_char c - 48"

definition digitsVal :: "string \<Rightarrow> int" where
  "digitsVal ds = foldl (\<lambda>a c. 10 * a + int (digitVal c)) 0 ds"

definition withSign :: "bool \<Rightarrow> rat \<Rightarrow> jsnum" where
  \<comment> \<open>The Number value of \<open>m\<close> under a sign; \<open>-0\<close> for a zero under a minus sign.\<close>
  "withSign neg m =
     (if m = 0 then (if neg then NegZero else Num 0) else numberValue (if neg then - m else m))"

definition parseInt10 :: "string \<Rightarrow> jsnum" where
  \<comment> \<open>\<open>parseInt(s, 10)\<close>: leading white space, a sign, then the digits up to the first
      character that is not one; \<open>NaN\<close> when there is no digit.\<close>
  "parseInt10 s =
     (let t = dropWhile isSpace s;
          neg = (t \<noteq> [] \<and> hd t = CHR ''-'');
          u = (if t \<noteq> [] \<and> (hd t = CHR ''-'' \<or> hd t = CHR ''+'') then tl t else t);
          ds = takeWhile isDigit u
      in if ds = [] then NaN else withSign neg (of_int (digitsVal ds)))"

definition exponentOf :: "string \<Rightarrow> int" where
  \<comment> \<open>The exponent part at the head of \<open>r\<close>: \<open>e\<close> or \<open>E\<close>, a sign, digits; \<open>0\<close> when
      \<open>r\<close> does not start with one.\<close>
  "exponentOf r =
     (if r \<noteq> [] \<and> (hd r = CHR ''e'' \<or> hd r = CHR ''E'') then
        (let r1 = tl r;
             neg = (r1 \<noteq> [] \<and> hd r1 = CHR ''-'');
             r2 = (if r1 \<noteq> [] \<and> (hd r1 = CHR ''-'' \<or> hd r1 = CHR ''+'') then tl r1 else r1);
             ds = takeWhile isDigit r2
         in if ds = [] then 0 else if neg then - digitsVal ds else digitsVal ds)
      else 0)"

definition parseFloat :: "string \<Rightarrow> jsnum" where
  \<comment> \<open>\<open>parseFloat(s)\<close>: the longest prefix that is a decimal literal.\<close>
  "parseFloat s =
     (let t = dropWhile isSpace s;
          neg = (t \<noteq> [] \<and> hd t = CHR ''-'');
          u = (if t \<noteq> [] \<and> (hd t = CHR ''-'' \<or> hd t = CHR ''+'') then tl t else t)
      in if take 8 u = ''Infinity'' then Infinity neg
         else
           (let ds = takeWhile isDigit u;
                r = dropWhile isDigit u;
                dot = (r \<noteq> [] \<and> hd r = CHR ''.'');
                fs = (if dot then takeWhile isDigit (tl r) else []);
                r' = (if dot then dropWhile isDigit (tl r) else r)
            in if ds = [] \<and> fs = [] then NaN
               else withSign neg
                      (scale10 (of_int (digitsVal (ds @ fs))) (exponentOf r' - int (length fs)))))"

subsection \<open>Loops\<close>

text \<open>
  \<open>commaList item\<close> is the loop
  \<^verbatim>\<open>do { xs.push(item()); } while (this.consume(TokenType.COMMA));\<close>
  and \<open>binaryLoop ops sub left\<close> the loop of a level of binary operators,
  \<^verbatim>\<open>while (this.matchAny(...ops)) { const operator = this.current().value; this.advance();
    const right = sub(); left = AST.binary(left, operator, right); }\<close>
\<close>

primrec commaList :: "nat \<Rightarrow> (parser \<Rightarrow> 'a res) \<Rightarrow> parser \<Rightarrow> 'a list res" where
  "commaList 0 item p = OutOfFuel"
| "commaList (Suc n) item p =
     andThen (item p) (\<lambda>x p1.
       case consume ''COMMA'' p1 of
         (None, p2) \<Rightarrow> Ok [x] p2
       | (Some _, p2) \<Rightarrow> andThen (commaList n item p2) (\<lambda>xs p3. Ok (x # xs) p3))"

primrec binaryLoop :: "nat \<Rightarrow> string list \<Rightarrow> (parser \<Rightarrow> node res) \<Rightarrow> node \<Rightarrow> parser \<Rightarrow> node res" where
  "binaryLoop 0 ops sub left p = OutOfFuel"
| "binaryLoop (Suc n) ops sub left p =
     (case pcurrent p of
        None \<Rightarrow> Ok left p
      | Some t \<Rightarrow>
          if tok_type t \<in> set ops then
            andThen (sub (padvance p)) (\<lambda>right p1.
              binaryLoop n ops sub (BinaryExpression left (tok_value t) right None) p1)
          else Ok left p)"


subsection \<open>Expressions\<close>

text \<open>
  \<open>parseExpression\<close> and \<open>parseSelectStatement\<close> are reached again from inside an
  expression (a parenthesis, an argument, a subquery). The functions between take the two
  as the parameters \<open>pe\<close> and \<open>ps\<close>; the recursion is closed below.
\<close>

type_synonym nodeParser = "parser \<Rightarrow> node res"

definition currentValue :: "parser \<Rightarrow> string" where
  \<comment> \<open>\<open>this.current().value\<close>, read after a \<open>match\<close> or \<open>matchAny\<close> that was true.\<close>
  "currentValue p = (case pcurrent p of None \<Rightarrow> [] | Some t \<Rightarrow> tok_value t)"

definition directionAt :: "parser \<Rightarrow> string" where
  \<comment> \<open>\<open>this.matchAny(PRECEDING, FOLLOWING) ? this.current().value.toUpperCase() : 'PRECEDING'\<close>\<close>
  "directionAt p = (if matchAny [''PRECEDING'', ''FOLLOWING''] p then toUpperCase (currentValue p)
                    else ''PRECEDING'')"

definition parseFrameBound :: "nodeParser \<Rightarrow> parser \<Rightarrow> node res" where
  "parseFrameBound pe p =
     (if match ''UNBOUNDED'' p then
        (let p1 = padvance p in Ok (FrameUnbounded (directionAt p1)) (padvance p1))
      else if match ''CURRENT'' p then
        andThen (expect ''ROW'' (padvance p)) (\<lambda>_ p1. Ok FrameCurrentRow p1)
      else if match ''INTERVAL'' p then
        andThen (pe (padvance p)) (\<lambda>intervalValue p1.
          let unit = (if matchAny [''YEAR'', ''MONTH'', ''DAY'', ''HOUR'', ''MINUTE'', ''SECOND''] p1
                      then toUpperCase (currentValue p1) else ''DAY'');
              p2 = padvance p1
          in Ok (FrameInterval intervalValue unit (directionAt p2)) (padvance p2))
      else
        andThen (pe p) (\<lambda>v p1. Ok (FrameOffset v (directionAt p1)) (padvance p1)))"

definition parseWindowFrame :: "nodeParser \<Rightarrow> parser \<Rightarrow> node res" where
  "parseWindowFrame pe p =
     (let frameType = toUpperCase (currentValue p); p1 = padvance p in
      if match ''BETWEEN'' p1 then
        andThen (parseFrameBound pe (padvance p1)) (\<lambda>start p2.
        andThen (expect ''AND'' p2) (\<lambda>_ p3.
        andThen (parseFrameBound pe p3) (\<lambda>end' p4.
          Ok (WindowFrame frameType (Some start) (Some end')) p4)))
      else
        andThen (parseFrameBound pe p1) (\<lambda>start p2.
          Ok (WindowFrame frameType (Some start) None) p2))"

definition parseOrderByItem :: "nodeParser \<Rightarrow> parser \<Rightarrow> node res" where
  \<comment> \<open>One round of the loop of \<open>parseOrderByClause\<close> (and of the \<open>ORDER BY\<close> of
      \<open>parseOverClause\<close>).\<close>
  "parseOrderByItem pe p =
     andThen (pe p) (\<lambda>col p1.
       if matchAny [''ASC'', ''DESC''] p1
       then Ok (OrderByColumn col (toUpperCase (currentValue p1))) (padvance p1)
       else Ok (OrderByColumn col ''ASC'') p1)"

definition parseOverClause :: "nat \<Rightarrow> nodeParser \<Rightarrow> parser \<Rightarrow> node res" where
  "parseOverClause n pe p =
     andThen (expect ''LEFT_PAREN'' p) (\<lambda>_ p1.
     andThen (if match ''PARTITION'' p1 then
                andThen (expect ''BY'' (padvance p1)) (\<lambda>_ p2.
                andThen (commaList n pe p2) (\<lambda>xs p3. Ok (Some xs) p3))
              else Ok None p1) (\<lambda>partitionBy p4.
     andThen (if match ''ORDER'' p4 then
                andThen (expect ''BY'' (padvance p4)) (\<lambda>_ p5.
                andThen (commaList n (parseOrderByItem pe) p5) (\<lambda>xs p6. Ok (Some xs) p6))
              else Ok None p4) (\<lambda>orderBy p7.
     andThen (if matchAny [''ROWS'', ''RANGE''] p7 then
                andThen (parseWindowFrame pe p7) (\<lambda>f p8. Ok (Some f) p8)
              else Ok None p7) (\<lambda>frame p9.
     andThen (expect ''RIGHT_PAREN'' p9) (\<lambda>_ p10.
       Ok (OverClause partitionBy orderBy frame) p10)))))"

primrec parseWhenClauses :: "nat \<Rightarrow> nodeParser \<Rightarrow> node list \<Rightarrow> parser \<Rightarrow> node list res" where
  \<comment> \<open>The \<open>while (this.match(TokenType.WHEN))\<close> loop of \<open>parseCaseExpression\<close>.\<close>
  "parseWhenClauses 0 pe whenClauses p = OutOfFuel"
| "parseWhenClauses (Suc n) pe whenClauses p =
     (if match ''WHEN'' p then
        andThen (pe (padvance p)) (\<lambda>condition p1.
        andThen (expect ''THEN'' p1) (\<lambda>_ p2.
        andThen (pe p2) (\<lambda>result p3.
          parseWhenClauses n pe (whenClauses @ [WhenClause condition result]) p3)))
      else Ok whenClauses p)"

definition parseCaseExpression :: "nat \<Rightarrow> nodeParser \<Rightarrow> parser \<Rightarrow> node res" where
  "parseCaseExpression n pe p =
     andThen (expect ''CASE'' p) (\<lambda>_ p1.
     andThen (if \<not> match ''WHEN'' p1 then andThen (pe p1) (\<lambda>e p2. Ok (Some e) p2)
              else Ok None p1) (\<lambda>expression p3.
     andThen (parseWhenClauses n pe [] p3) (\<lambda>whenClauses p4.
     andThen (if match ''ELSE'' p4 then andThen (pe (padvance p4)) (\<lambda>e p5. Ok (Some e) p5)
              else Ok None p4) (\<lambda>elseClause p6.
     andThen (expect ''END'' p6) (\<lambda>_ p7.
       Ok (CaseExpression expression whenClauses elseClause None) p7)))))"

definition parseArgument :: "nodeParser \<Rightarrow> parser \<Rightarrow> node res" where
  \<comment> \<open>One round of the argument loop of a function call.\<close>
  "parseArgument pe p =
     (if match ''MULTIPLY'' p then Ok (Literal (LStr ''*'') ''STAR'' None) (padvance p) else pe p)"

definition parseNumberLiteral :: "string \<Rightarrow> jsnum" where
  \<comment> \<open>\<open>token.value.includes(".") ? parseFloat(token.value) : parseInt(token.value, 10)\<close>\<close>
  "parseNumberLiteral v = (if CHR ''.'' \<in> set v then parseFloat v else parseInt10 v)"

definition parseFunctionCall :: "nat \<Rightarrow> nodeParser \<Rightarrow> string \<Rightarrow> parser \<Rightarrow> node res" where
  \<comment> \<open>The function-call branch of \<open>parsePrimaryExpression\<close>, after the name and \<open>(\<close>.\<close>
  "parseFunctionCall n pe name p2 =
     (if toUpperCase name = ''EXTRACT'' then
        (case pcurrent p2 of
           None \<Rightarrow> Throw typeError
         | Some fieldToken \<Rightarrow>
             if tok_type fieldToken \<in> set [''IDENTIFIER'', ''YEAR'', ''MONTH'', ''DAY'', ''HOUR'',
                  ''MINUTE'', ''SECOND'']
             then
               andThen (expect ''FROM'' (padvance p2)) (\<lambda>_ p3.
               andThen (pe p3) (\<lambda>source p4.
               andThen (expect ''RIGHT_PAREN'' p4) (\<lambda>_ p5.
                 Ok (FunctionCall name [Literal (LStr (tok_value fieldToken)) ''string'' None, source]
                       True False None) p5)))
             else Throw (unexpectedToken ''date/time field'' (tok_type fieldToken)
                           (tok_line fieldToken) (tok_column fieldToken)))
      else
        andThen (if \<not> match ''RIGHT_PAREN'' p2 then
                   (let distinct = match ''DISTINCT'' p2;
                        p3 = (if distinct then padvance p2 else p2)
                    in andThen (commaList n (parseArgument pe) p3) (\<lambda>args p4.
                         Ok (args, distinct) p4))
                 else Ok ([], False) p2) (\<lambda>ad p4.
        andThen (expect ''RIGHT_PAREN'' p4) (\<lambda>_ p5.
          let func = FunctionCall name (fst ad) False (snd ad) None in
          if match ''OVER'' p5 then
            andThen (parseOverClause n pe (padvance p5)) (\<lambda>overClause p6.
              Ok (WindowFunction func overClause None) p6)
          else Ok func p5)))"

definition parsePrimaryExpression :: "nat \<Rightarrow> nodeParser \<Rightarrow> nodeParser \<Rightarrow> parser \<Rightarrow> node res" where
  "parsePrimaryExpression n pe ps p =
     (case pcurrent p of
        None \<Rightarrow> Throw (unexpectedEnd (lastLine p) (lastColumn p))
      | Some token \<Rightarrow>
          if tok_type token = ''LEFT_PAREN'' then
            (let p1 = padvance p in
             if match ''SELECT'' p1 then
               andThen (ps p1) (\<lambda>query p2.
               andThen (expect ''RIGHT_PAREN'' p2) (\<lambda>_ p3. Ok (SubQuery query None) p3))
             else
               andThen (pe p1) (\<lambda>expr p2.
               andThen (expect ''RIGHT_PAREN'' p2) (\<lambda>_ p3. Ok expr p3)))
          else if tok_type token = ''INTERVAL'' then
            andThen (pe (padvance p)) (\<lambda>v p1.
              if matchAny [''YEAR'', ''MONTH'', ''DAY'', ''HOUR'', ''MINUTE'', ''SECOND''] p1
              then Ok (Interval v (toUpperCase (currentValue p1)) None) (padvance p1)
              else if match ''IDENTIFIER'' p1 \<and>
                      toUpperCase (currentValue p1) \<in>
                        set [''YEAR'', ''MONTH'', ''DAY'', ''HOUR'', ''MINUTE'', ''SECOND'']
              then Ok (Interval v (toUpperCase (currentValue p1)) None) (padvance p1)
              else Ok (Interval v ''DAY'' None) p1)
          else if tok_type token = ''STRING'' then
            Ok (Literal (LStr (tok_value token)) ''string'' None) (padvance p)
          else if tok_type token = ''NUMBER'' then
            Ok (Literal (LNumber (parseNumberLiteral (tok_value token))) ''number'' None) (padvance p)
          else if tok_type token = ''BOOLEAN'' then
            Ok (Literal (LBool (toLowerCase (tok_value token) = ''true'')) ''boolean'' None)
              (padvance p)
          else if tok_type token = ''NULL'' then
            Ok (Literal LNull ''null'' None) (padvance p)
          else if tok_type token = ''CASE'' then parseCaseExpression n pe p
          else if tok_type token = ''IDENTIFIER'' \<or> isFunctionKeyword token then
            (let name = tok_value token; p1 = padvance p in
             if match ''LEFT_PAREN'' p1 then parseFunctionCall n pe name (padvance p1)
             else if match ''DOT'' p1 then
               andThen (expect ''IDENTIFIER'' (padvance p1)) (\<lambda>t p2.
                 Ok (ColumnReference (tok_value t) (Some name) None) p2)
             else Ok (ColumnReference name None None) p1)
          else Throw (unexpectedToken ''expression'' (tok_type token) (tok_line token)
                        (tok_column token)))"

primrec parseUnaryExpression :: "nat \<Rightarrow> nodeParser \<Rightarrow> nodeParser \<Rightarrow> parser \<Rightarrow> node res" where
  "parseUnaryExpression 0 pe ps p = OutOfFuel"
| "parseUnaryExpression (Suc n) pe ps p =
     (if matchAny [''NOT'', ''MINUS'', ''PLUS''] p then
        andThen (parseUnaryExpression n pe ps (padvance p)) (\<lambda>operand p1.
          Ok (UnaryExpression (currentValue p) operand None) p1)
      else if match ''EXISTS'' p then
        andThen (expect ''LEFT_PAREN'' (padvance p)) (\<lambda>_ p1.
        andThen (ps p1) (\<lambda>subquery p2.
        andThen (expect ''RIGHT_PAREN'' p2) (\<lambda>_ p3.
          Ok (UnaryExpression ''EXISTS'' subquery None) p3)))
      else parsePrimaryExpression n pe ps p)"

definition parseMultiplicativeExpression ::
  "nat \<Rightarrow> nodeParser \<Rightarrow> nodeParser \<Rightarrow> parser \<Rightarrow> node res" where
  "parseMultiplicativeExpression n pe ps p =
     andThen (parseUnaryExpression n pe ps p)
       (binaryLoop n [''MULTIPLY'', ''DIVIDE'', ''MODULO'', ''CONCAT''] (parseUnaryExpression n pe ps))"

definition parseAdditiveExpression ::
  "nat \<Rightarrow> nodeParser \<Rightarrow> nodeParser \<Rightarrow> parser \<Rightarrow> node res" where
  "parseAdditiveExpression n pe ps p =
     andThen (parseMultiplicativeExpression n pe ps p)
       (binaryLoop n [''PLUS'', ''MINUS''] (parseMultiplicativeExpression n pe ps))"

definition parseRelationalRight ::
  "nat \<Rightarrow> nodeParser \<Rightarrow> nodeParser \<Rightarrow> node \<Rightarrow> string \<Rightarrow> parser \<Rightarrow> node res" where
  \<comment> \<open>One round of the loop of \<open>parseRelationalExpression\<close>, after the operator: the new
      \<open>left\<close>.\<close>
  "parseRelationalRight n pe ps left operator p1 =
     (if operator = ''IN'' then
        andThen (expect ''LEFT_PAREN'' p1) (\<lambda>_ p2.
          if match ''SELECT'' p2 then
            andThen (ps p2) (\<lambda>query p3.
            andThen (expect ''RIGHT_PAREN'' p3) (\<lambda>_ p4.
              Ok (BinaryExpression left operator (SubQuery query None) None) p4))
          else
            andThen (if \<not> match ''RIGHT_PAREN'' p2 then commaList n pe p2 else Ok [] p2)
              (\<lambda>vs p3.
            andThen (expect ''RIGHT_PAREN'' p3) (\<lambda>_ p4.
              Ok (BinaryExpression left operator (ValuesList vs) None) p4)))
      else if operator = ''BETWEEN'' then
        andThen (parseAdditiveExpression n pe ps p1) (\<lambda>startValue p2.
        andThen (expect ''AND'' p2) (\<lambda>_ p3.
        andThen (parseAdditiveExpression n pe ps p3) (\<lambda>endValue p4.
          Ok (BinaryExpression left operator (BetweenRange startValue endValue) None) p4)))
      else if operator = ''IS'' then
        (let isNot = match ''NOT'' p1;
             isOperator = (if isNot then ''IS NOT'' else ''IS'');
             p2 = (if isNot then padvance p1 else p1)
         in if match ''NULL'' p2
            then Ok (BinaryExpression left isOperator (Literal LNull ''NULL'' None) None) (padvance p2)
            else Throw (expectedError (''Expected NULL after '' @ isOperator) p2))
      else if matchAny [''ANY'', ''ALL''] p1 then
        (let quantifier = currentValue p1 in
         andThen (expect ''LEFT_PAREN'' (padvance p1)) (\<lambda>_ p2.
           if match ''SELECT'' p2 then
             andThen (ps p2) (\<lambda>query p3.
             andThen (expect ''RIGHT_PAREN'' p3) (\<lambda>_ p4.
               Ok (BinaryExpression left (operator @ '' '' @ quantifier) (SubQuery query None) None)
                 p4))
           else Throw (expectedError (''Expected SELECT after '' @ quantifier) p2)))
      else
        andThen (parseAdditiveExpression n pe ps p1) (\<lambda>right p2.
          Ok (BinaryExpression left operator right None) p2))"

primrec parseRelational_loop ::
  "nat \<Rightarrow> nodeParser \<Rightarrow> nodeParser \<Rightarrow> node \<Rightarrow> parser \<Rightarrow> node res" where
  "parseRelational_loop 0 pe ps left p = OutOfFuel"
| "parseRelational_loop (Suc n) pe ps left p =
     (if matchAny [''LESS_THAN'', ''GREATER_THAN'', ''LESS_THAN_EQUALS'', ''GREATER_THAN_EQUALS'',
           ''LIKE'', ''ILIKE'', ''IN'', ''BETWEEN'', ''IS''] p
      then andThen (parseRelationalRight n pe ps left (currentValue p) (padvance p))
             (parseRelational_loop n pe ps)
      else Ok left p)"

definition parseRelationalExpression ::
  "nat \<Rightarrow> nodeParser \<Rightarrow> nodeParser \<Rightarrow> parser \<Rightarrow> node res" where
  "parseRelationalExpression n pe ps p =
     andThen (parseAdditiveExpression n pe ps p) (parseRelational_loop n pe ps)"

definition parseEqualityExpression ::
  "nat \<Rightarrow> nodeParser \<Rightarrow> nodeParser \<Rightarrow> parser \<Rightarrow> node res" where
  "parseEqualityExpression n pe ps p =
     andThen (parseRelationalExpression n pe ps p)
       (binaryLoop n [''EQUALS'', ''NOT_EQUALS''] (parseRelationalExpression n pe ps))"

definition parseAndExpression :: "nat \<Rightarrow> nodeParser \<Rightarrow> nodeParser \<Rightarrow> parser \<Rightarrow> node res" where
  "parseAndExpression n pe ps p =
     andThen (parseEqualityExpression n pe ps p)
       (binaryLoop n [''AND''] (parseEqualityExpression n pe ps))"

definition parseOrExpression :: "nat \<Rightarrow> nodeParser \<Rightarrow> nodeParser \<Rightarrow> parser \<Rightarrow> node res" where
  "parseOrExpression n pe ps p =
     andThen (parseAndExpression n pe ps p)
       (binaryLoop n [''OR''] (parseAndExpression n pe ps))"


subsection \<open>Clauses of \<open>SELECT\<close>\<close>

definition parseTableAlias :: "parser \<Rightarrow> string option res" where
  \<comment> \<open>The alias after a table or a subquery in \<open>parseTableReference\<close>.\<close>
  "parseTableAlias p =
     (if match ''AS'' p then
        andThen (expect ''IDENTIFIER'' (padvance p)) (\<lambda>t p1. Ok (Some (tok_value t)) p1)
      else
        (case pcurrent p of
           None \<Rightarrow> Ok None p
         | Some t \<Rightarrow>
             if tok_type t = ''IDENTIFIER'' \<and> canBeAlias t then Ok (Some (tok_value t)) (padvance p)
             else Ok None p))"

definition parseRegularTable :: "parser \<Rightarrow> node res" where
  \<comment> \<open>The "regular table reference" part of \<open>parseTableReference\<close>.\<close>
  "parseRegularTable p =
     andThen (expect ''IDENTIFIER'' p) (\<lambda>t p1.
     andThen (parseTableAlias p1) (\<lambda>alias p2.
       Ok (TableReference (tok_value t) alias None) p2))"

definition parseTableReference :: "nodeParser \<Rightarrow> parser \<Rightarrow> node res" where
  "parseTableReference ps p =
     (if match ''LEFT_PAREN'' p then
        (let p1 = padvance p in
         if match ''SELECT'' p1 then
           andThen (ps p1) (\<lambda>query p2.
           andThen (expect ''RIGHT_PAREN'' p2) (\<lambda>_ p3.
           andThen (parseTableAlias p3) (\<lambda>alias p4.
             Ok (SubQuery query alias) p4)))
         else parseRegularTable (p1\<lparr>p_position := p_position p1 - 1\<rparr>))
      else parseRegularTable p)"

definition parseJoinClause :: "nodeParser \<Rightarrow> nodeParser \<Rightarrow> parser \<Rightarrow> node res" where
  "parseJoinClause pe ps p =
     (let outer = (\<lambda>ty q. if match ''OUTER'' q then (ty @ '' OUTER'', padvance q) else (ty, q));
          jp = (if match ''LEFT'' p then outer ''LEFT'' (padvance p)
                else if match ''RIGHT'' p then outer ''RIGHT'' (padvance p)
                else if match ''FULL'' p then outer ''FULL'' (padvance p)
                else if match ''CROSS'' p then (''CROSS'', padvance p)
                else if match ''INNER'' p then (''INNER'', padvance p)
                else (''INNER'', p));
          joinType = fst jp
      in andThen (expect ''JOIN'' (snd jp)) (\<lambda>_ p1.
         andThen (parseTableReference ps p1) (\<lambda>table p2.
           if joinType \<noteq> ''CROSS'' then
             andThen (expect ''ON'' p2) (\<lambda>_ p3.
             andThen (pe p3) (\<lambda>condition p4.
               Ok (JoinClause joinType table (Some condition)) p4))
           else Ok (JoinClause joinType table None) p2)))"

primrec parseJoins :: "nat \<Rightarrow> nodeParser \<Rightarrow> nodeParser \<Rightarrow> parser \<Rightarrow> node list res" where
  \<comment> \<open>The \<open>while (this.matchAny(JOIN, INNER, LEFT, RIGHT, FULL, CROSS))\<close> loop of
      \<open>parseFromClause\<close>: the joins it pushes.\<close>
  "parseJoins 0 pe ps p = OutOfFuel"
| "parseJoins (Suc n) pe ps p =
     (if matchAny [''JOIN'', ''INNER'', ''LEFT'', ''RIGHT'', ''FULL'', ''CROSS''] p then
        andThen (parseJoinClause pe ps p) (\<lambda>j p1.
        andThen (parseJoins n pe ps p1) (\<lambda>js p2. Ok (j # js) p2))
      else Ok [] p)"

definition parseFromClause :: "nat \<Rightarrow> nodeParser \<Rightarrow> nodeParser \<Rightarrow> parser \<Rightarrow> node res" where
  \<comment> \<open>Each round of the outer loop pushes one table and the joins after it.\<close>
  "parseFromClause n pe ps p =
     andThen (expect ''FROM'' p) (\<lambda>_ p1.
     andThen (commaList n (\<lambda>q. andThen (parseTableReference ps q) (\<lambda>table q1.
                andThen (parseJoins n pe ps q1) (\<lambda>js q2. Ok (table, js) q2))) p1) (\<lambda>rounds p2.
       Ok (FromClause (map fst rounds) (concat (map snd rounds))) p2))"

definition parseWhereClause :: "nodeParser \<Rightarrow> parser \<Rightarrow> node res" where
  "parseWhereClause pe p = andThen (expect ''WHERE'' p) (\<lambda>_ p1. pe p1)"

definition parseGroupByClause :: "nat \<Rightarrow> nodeParser \<Rightarrow> parser \<Rightarrow> node res" where
  "parseGroupByClause n pe p =
     andThen (expect ''GROUP'' p) (\<lambda>_ p1.
     andThen (expect ''BY'' p1) (\<lambda>_ p2.
     andThen (commaList n pe p2) (\<lambda>cols p3. Ok (GroupByClause cols) p3)))"

definition parseHavingClause :: "nodeParser \<Rightarrow> parser \<Rightarrow> node res" where
  "parseHavingClause pe p =
     andThen (expect ''HAVING'' p) (\<lambda>_ p1.
     andThen (pe p1) (\<lambda>condition p2. Ok (HavingClause condition) p2))"

definition withAlias :: "string \<Rightarrow> node \<Rightarrow> node" where
  \<comment> \<open>\<open>if (alias) { expr.alias = alias; }\<close>: the empty string is falsy.\<close>
  "withAlias a e = (if a \<noteq> [] then setAlias a e else e)"

definition parseSelectColumn :: "nodeParser \<Rightarrow> parser \<Rightarrow> node res" where
  \<comment> \<open>One round of the loop of \<open>parseSelectColumns\<close>.\<close>
  "parseSelectColumn pe p =
     (if match ''MULTIPLY'' p then Ok Wildcard (padvance p)
      else
        andThen (pe p) (\<lambda>expr p1.
          if match ''AS'' p1 then
            (let p2 = padvance p1 in
             case pcurrent p2 of
               None \<Rightarrow> Throw typeError
             | Some t \<Rightarrow>
                 if canBeAlias t then Ok (withAlias (tok_value t) expr) (padvance p2)
                 else Throw (unexpectedToken ''alias identifier'' (tok_type t) (tok_line t)
                               (tok_column t)))
          else
            (case pcurrent p1 of
               None \<Rightarrow> Throw typeError
             | Some t \<Rightarrow>
                 if canBeAlias t then Ok (withAlias (tok_value t) expr) (padvance p1)
                 else Ok expr p1)))"

definition parseSelectColumns :: "nat \<Rightarrow> nodeParser \<Rightarrow> parser \<Rightarrow> node list res" where
  "parseSelectColumns n pe p = commaList n (parseSelectColumn pe) p"

definition optional :: "bool \<Rightarrow> node res \<Rightarrow> parser \<Rightarrow> node option res" where
  \<comment> \<open>\<open>let c = null; if (this.match(T)) { c = this.parseClause(); }\<close>\<close>
  "optional b r p = (if b then andThen r (\<lambda>c p1. Ok (Some c) p1) else Ok None p)"

definition selectBody :: "nat \<Rightarrow> nodeParser \<Rightarrow> nodeParser \<Rightarrow> parser \<Rightarrow> node res" where
  \<comment> \<open>The body that \<open>parseSelectStatement\<close> and \<open>parseSelectStatementWithoutOrderLimit\<close>
      share word for word. The first passes \<open>orderBy: null, limit: null\<close> to \<open>AST.select\<close>,
      the second leaves them to the defaults of \<open>SelectStatement\<close>, which are \<open>null\<close>.\<close>
  "selectBody n pe ps p =
     andThen (expect ''SELECT'' p) (\<lambda>_ p1.
       let d = consume ''DISTINCT'' p1; distinct = (fst d \<noteq> None) in
     andThen (parseSelectColumns n pe (snd d)) (\<lambda>cols p2.
     andThen (optional (match ''FROM'' p2) (parseFromClause n pe ps p2) p2) (\<lambda>fromClause p3.
     andThen (optional (match ''WHERE'' p3) (parseWhereClause pe p3) p3) (\<lambda>whereClause p4.
     andThen (optional (match ''GROUP'' p4) (parseGroupByClause n pe p4) p4) (\<lambda>groupByClause p5.
     andThen (optional (match ''HAVING'' p5) (parseHavingClause pe p5) p5) (\<lambda>havingClause p6.
       Ok (SelectStatement cols fromClause whereClause groupByClause havingClause
             None None None distinct None) p6))))))"

subsection \<open>Closing the recursion\<close>

fun parseExpression :: "nat \<Rightarrow> parser \<Rightarrow> node res"
  and parseSelectStatement :: "nat \<Rightarrow> parser \<Rightarrow> node res" where
  "parseExpression 0 p = OutOfFuel"
| "parseExpression (Suc n) p = parseOrExpression n (parseExpression n) (parseSelectStatement n) p"
| "parseSelectStatement 0 p = OutOfFuel"
| "parseSelectStatement (Suc n) p = selectBody n (parseExpression n) (parseSelectStatement n) p"

subsection \<open>Statements\<close>

definition parseSelectStatementWithoutOrderLimit :: "nat \<Rightarrow> parser \<Rightarrow> node res" where
  "parseSelectStatementWithoutOrderLimit n p =
     selectBody n (parseExpression n) (parseSelectStatement n) p"

definition parseOrderByClause :: "nat \<Rightarrow> parser \<Rightarrow> node res" where
  "parseOrderByClause n p =
     andThen (expect ''ORDER'' p) (\<lambda>_ p1.
     andThen (expect ''BY'' p1) (\<lambda>_ p2.
     andThen (commaList n (parseOrderByItem (parseExpression n)) p2) (\<lambda>cols p3.
       Ok (OrderByClause cols) p3)))"

definition parseLimitClause :: "nat \<Rightarrow> parser \<Rightarrow> node res" where
  "parseLimitClause n p =
     andThen (expect ''LIMIT'' p) (\<lambda>_ p1.
     andThen (parseExpression n p1) (\<lambda>count p2.
       if match ''OFFSET'' p2 then
         andThen (parseExpression n (padvance p2)) (\<lambda>off p3. Ok (LimitClause count (Some off)) p3)
       else Ok (LimitClause count None) p2))"

definition unionTypeOf :: "bool \<Rightarrow> string" where
  "unionTypeOf all = (if all then ''UNION ALL'' else ''UNION'')"

primrec parseUnionStatementWithoutOrderLimit :: "nat \<Rightarrow> parser \<Rightarrow> node res" where
  "parseUnionStatementWithoutOrderLimit 0 p = OutOfFuel"
| "parseUnionStatementWithoutOrderLimit (Suc n) p =
     andThen (parseSelectStatementWithoutOrderLimit n p) (\<lambda>left p1.
       if match ''UNION'' p1 then
         (let a = consume ''ALL'' (padvance p1); all = (fst a \<noteq> None) in
          andThen (parseUnionStatementWithoutOrderLimit n (snd a)) (\<lambda>right p2.
            Ok (UnionStatement left right (unionTypeOf all) all None None None None) p2))
       else Ok left p1)"

fun setOrderLimit :: "node option \<Rightarrow> node option \<Rightarrow> node \<Rightarrow> node" where
  \<comment> \<open>\<open>left.orderBy = orderByClause; left.limit = limitClause;\<close>\<close>
  "setOrderLimit ob lm (SelectStatement cols fr wh gb hv _ _ off di wi) =
     SelectStatement cols fr wh gb hv ob lm off di wi"
| "setOrderLimit ob lm (UnionStatement l r ty al _ _ off wi) = UnionStatement l r ty al ob lm off wi"
| "setOrderLimit ob lm x = x"

definition parseUnionStatement :: "nat \<Rightarrow> parser \<Rightarrow> node res" where
  "parseUnionStatement n p =
     andThen (parseSelectStatement n p) (\<lambda>left p1.
       if match ''UNION'' p1 then
         (let a = consume ''ALL'' (padvance p1); all = (fst a \<noteq> None) in
          andThen (parseUnionStatementWithoutOrderLimit n (snd a)) (\<lambda>right p2.
          andThen (optional (match ''ORDER'' p2) (parseOrderByClause n p2) p2) (\<lambda>orderByClause p3.
          andThen (optional (match ''LIMIT'' p3) (parseLimitClause n p3) p3) (\<lambda>limitClause p4.
            Ok (UnionStatement left right (unionTypeOf all) all orderByClause limitClause
                  None None) p4))))
       else
         andThen (optional (match ''ORDER'' p1) (parseOrderByClause n p1) p1) (\<lambda>orderByClause p2.
         andThen (optional (match ''LIMIT'' p2) (parseLimitClause n p2) p2) (\<lambda>limitClause p3.
           if orderByClause \<noteq> None \<or> limitClause \<noteq> None
           then Ok (setOrderLimit orderByClause limitClause left) p3
           else Ok left p3)))"

definition parseCTE :: "nat \<Rightarrow> parser \<Rightarrow> node res" where
  \<comment> \<open>One round of the loop of \<open>parseWithStatement\<close>.\<close>
  "parseCTE n p =
     andThen (expect ''IDENTIFIER'' p) (\<lambda>name p1.
     andThen (if match ''LEFT_PAREN'' p1 then
                andThen (commaList n (\<lambda>q. andThen (expect ''IDENTIFIER'' q)
                           (\<lambda>t q1. Ok (tok_value t) q1)) (padvance p1)) (\<lambda>cols p2.
                andThen (expect ''RIGHT_PAREN'' p2) (\<lambda>_ p3. Ok (Some cols) p3))
              else Ok None p1) (\<lambda>cols p4.
     andThen (expect ''AS'' p4) (\<lambda>_ p5.
     andThen (expect ''LEFT_PAREN'' p5) (\<lambda>_ p6.
     andThen (parseUnionStatement n p6) (\<lambda>query p7.
     andThen (expect ''RIGHT_PAREN'' p7) (\<lambda>_ p8.
       Ok (CTEExpression (tok_value name) cols query) p8))))))"

fun setWith :: "node \<Rightarrow> node \<Rightarrow> node" where
  \<comment> \<open>\<open>mainQuery.with = withClause;\<close>\<close>
  "setWith w (SelectStatement cols fr wh gb hv ob lm off di _) =
     SelectStatement cols fr wh gb hv ob lm off di (Some w)"
| "setWith w (UnionStatement l r ty al ob lm off _) = UnionStatement l r ty al ob lm off (Some w)"
| "setWith w x = x"

definition parseWithStatement :: "nat \<Rightarrow> parser \<Rightarrow> node res" where
  "parseWithStatement n p =
     andThen (expect ''WITH'' p) (\<lambda>_ p1.
       let r = consume ''RECURSIVE'' p1; recursive = (fst r \<noteq> None) in
     andThen (commaList n (parseCTE n) (snd r)) (\<lambda>expressions p2.
     andThen (parseUnionStatement n p2) (\<lambda>mainQuery p3.
       Ok (setWith (WithClause recursive expressions) mainQuery) p3)))"

definition parseInsertStatement :: "nat \<Rightarrow> parser \<Rightarrow> node res" where
  "parseInsertStatement n p =
     andThen (expect ''INSERT'' p) (\<lambda>_ p1.
     andThen (expect ''INTO'' p1) (\<lambda>_ p2.
     andThen (parseTableReference (parseSelectStatement n) p2) (\<lambda>table p3.
     andThen (if match ''LEFT_PAREN'' p3 then
                andThen (commaList n (\<lambda>q. andThen (expect ''IDENTIFIER'' q)
                           (\<lambda>t q1. Ok (tok_value t) q1)) (padvance p3)) (\<lambda>cols p4.
                andThen (expect ''RIGHT_PAREN'' p4) (\<lambda>_ p5. Ok cols p5))
              else Ok [] p3) (\<lambda>cols p6.
     andThen (expect ''VALUES'' p6) (\<lambda>_ p7.
     andThen (commaList n (\<lambda>q.
                andThen (expect ''LEFT_PAREN'' q) (\<lambda>_ q1.
                andThen (commaList n (parseExpression n) q1) (\<lambda>valueList q2.
                andThen (expect ''RIGHT_PAREN'' q2) (\<lambda>_ q3. Ok (ValuesList valueList) q3)))) p7)
       (\<lambda>vals p8.
       Ok (InsertStatement table cols vals) p8))))))"

definition parseAssignment :: "nat \<Rightarrow> parser \<Rightarrow> node res" where
  \<comment> \<open>One round of the loop of \<open>parseUpdateStatement\<close>.\<close>
  "parseAssignment n p =
     andThen (expect ''IDENTIFIER'' p) (\<lambda>col p1.
     andThen (expect ''EQUALS'' p1) (\<lambda>_ p2.
     andThen (parseExpression n p2) (\<lambda>v p3. Ok (Assignment (tok_value col) v) p3)))"

definition parseUpdateStatement :: "nat \<Rightarrow> parser \<Rightarrow> node res" where
  "parseUpdateStatement n p =
     andThen (expect ''UPDATE'' p) (\<lambda>_ p1.
     andThen (parseTableReference (parseSelectStatement n) p1) (\<lambda>table p2.
     andThen (expect ''SET'' p2) (\<lambda>_ p3.
     andThen (commaList n (parseAssignment n) p3) (\<lambda>assignments p4.
     andThen (optional (match ''WHERE'' p4) (parseWhereClause (parseExpression n) p4) p4)
       (\<lambda>whereClause p5.
       Ok (UpdateStatement table assignments whereClause) p5)))))"

definition parseDeleteStatement :: "nat \<Rightarrow> parser \<Rightarrow> node res" where
  "parseDeleteStatement n p =
     andThen (expect ''DELETE'' p) (\<lambda>_ p1.
     andThen (expect ''FROM'' p1) (\<lambda>_ p2.
     andThen (parseTableReference (parseSelectStatement n) p2) (\<lambda>table p3.
     andThen (optional (match ''WHERE'' p3) (parseWhereClause (parseExpression n) p3) p3)
       (\<lambda>whereClause p4.
       Ok (DeleteStatement table whereClause) p4))))"

definition parseStatement :: "nat \<Rightarrow> parser \<Rightarrow> node res" where
  "parseStatement n p =
     (case pcurrent p of
        None \<Rightarrow> Throw (unexpectedEnd 1 1)
      | Some token \<Rightarrow>
          if tok_type token = ''WITH'' then parseWithStatement n p
          else if tok_type token = ''SELECT'' then parseUnionStatement n p
          else if tok_type token = ''INSERT'' then parseInsertStatement n p
          else if tok_type token = ''UPDATE'' then parseUpdateStatement n p
          else if tok_type token = ''DELETE'' then parseDeleteStatement n p
          else Throw (unexpectedToken ''WITH, SELECT, INSERT, UPDATE, or DELETE'' (tok_type token)
                        (tok_line token) (tok_column token)))"

definition parse :: "nat \<Rightarrow> parser \<Rightarrow> node res" where
  "parse n p =
     (case pcurrent p of
        None \<Rightarrow> Throw (SQLError ''Empty input'' (Code ''EMPTY_INPUT'') 1 1 [])
      | Some t0 \<Rightarrow>
          if tok_type t0 = ''EOF'' \<and> p_position p = 0
          then Throw (SQLError ''Empty input'' (Code ''EMPTY_INPUT'') 1 1 [])
          else
            andThen (parseStatement n p) (\<lambda>statement p1.
              case pcurrent p1 of
                None \<Rightarrow> Ok statement p1
              | Some t \<Rightarrow>
                  if tok_type t \<noteq> ''EOF'' \<and> strict p1
                  then Throw (unexpectedToken ''end of statement'' (tok_type t) (tok_line t)
                                (tok_column t))
                  else Ok statement p1))"


section \<open>The entry points (\<open>index.js\<close>), first part: walking the tree\<close>

text \<open>
  \<open>traverseAST\<close> of \<open>extractTablesFromAST\<close> visits a node, then every property of it that
  is an object or an array, in the order of the properties. \<open>tablesOf\<close> is the list of
  names it pushes: the name of every \<open>TableReference\<close> whose name is not empty.
  \<open>columnsOf\<close> is the same walk of \<open>extractColumnsFromAST\<close>, which adds the name of every
  \<open>ColumnReference\<close> and of every \<open>Identifier\<close> (no node has a \<open>parent\<close> property).
\<close>

fun tablesOf :: "node \<Rightarrow> string list" where
  "tablesOf (SelectStatement x1 x2 x3 x4 x5 x6 x7 x8 _ x10) =
     concat (map tablesOf x1) @ (case x2 of None \<Rightarrow> [] | Some y \<Rightarrow> tablesOf y) @ (case x3 of None \<Rightarrow> [] | Some y \<Rightarrow> tablesOf y) @ (case x4 of None \<Rightarrow> [] | Some y \<Rightarrow> tablesOf y) @ (case x5 of None \<Rightarrow> [] | Some y \<Rightarrow> tablesOf y) @ (case x6 of None \<Rightarrow> [] | Some y \<Rightarrow> tablesOf y) @ (case x7 of None \<Rightarrow> [] | Some y \<Rightarrow> tablesOf y) @ (case x8 of None \<Rightarrow> [] | Some y \<Rightarrow> tablesOf y) @ (case x10 of None \<Rightarrow> [] | Some y \<Rightarrow> tablesOf y)"
| "tablesOf (InsertStatement x1 _ x3) =
     tablesOf x1 @ concat (map tablesOf x3)"
| "tablesOf (UpdateStatement x1 x2 x3) =
     tablesOf x1 @ concat (map tablesOf x2) @ (case x3 of None \<Rightarrow> [] | Some y \<Rightarrow> tablesOf y)"
| "tablesOf (DeleteStatement x1 x2) =
     tablesOf x1 @ (case x2 of None \<Rightarrow> [] | Some y \<Rightarrow> tablesOf y)"
| "tablesOf (UnionStatement x1 x2 _ _ x5 x6 x7 x8) =
     tablesOf x1 @ tablesOf x2 @ (case x5 of None \<Rightarrow> [] | Some y \<Rightarrow> tablesOf y) @ (case x6 of None \<Rightarrow> [] | Some y \<Rightarrow> tablesOf y) @ (case x7 of None \<Rightarrow> [] | Some y \<Rightarrow> tablesOf y) @ (case x8 of None \<Rightarrow> [] | Some y \<Rightarrow> tablesOf y)"
| "tablesOf (WithClause _ x2) =
     concat (map tablesOf x2)"
| "tablesOf (CTEExpression _ _ x3) =
     tablesOf x3"
| "tablesOf (WindowFunction x1 x2 _) =
     tablesOf x1 @ tablesOf x2"
| "tablesOf (OverClause x1 x2 x3) =
     (case x1 of None \<Rightarrow> [] | Some ys \<Rightarrow> concat (map tablesOf ys)) @ (case x2 of None \<Rightarrow> [] | Some ys \<Rightarrow> concat (map tablesOf ys)) @ (case x3 of None \<Rightarrow> [] | Some y \<Rightarrow> tablesOf y)"
| "tablesOf (WindowFrame _ x2 x3) =
     (case x2 of None \<Rightarrow> [] | Some y \<Rightarrow> tablesOf y) @ (case x3 of None \<Rightarrow> [] | Some y \<Rightarrow> tablesOf y)"
| "tablesOf (FrameUnbounded _) =
     []"
| "tablesOf FrameCurrentRow =
     []"
| "tablesOf (FrameInterval x1 _ _) =
     tablesOf x1"
| "tablesOf (FrameOffset x1 _) =
     tablesOf x1"
| "tablesOf (BinaryExpression x1 _ x3 _) =
     tablesOf x1 @ tablesOf x3"
| "tablesOf (UnaryExpression _ x2 _) =
     tablesOf x2"
| "tablesOf (FunctionCall _ x2 _ _ _) =
     concat (map tablesOf x2)"
| "tablesOf (CaseExpression x1 x2 x3 _) =
     (case x1 of None \<Rightarrow> [] | Some y \<Rightarrow> tablesOf y) @ concat (map tablesOf x2) @ (case x3 of None \<Rightarrow> [] | Some y \<Rightarrow> tablesOf y)"
| "tablesOf (WhenClause x1 x2) =
     tablesOf x1 @ tablesOf x2"
| "tablesOf (Identifier _ _) =
     []"
| "tablesOf (TableReference x1 _ _) =
     (if x1 \<noteq> [] then [x1] else [])"
| "tablesOf (ColumnReference _ _ _) =
     []"
| "tablesOf Wildcard =
     []"
| "tablesOf (Literal _ _ _) =
     []"
| "tablesOf (FromClause x1 x2) =
     concat (map tablesOf x1) @ concat (map tablesOf x2)"
| "tablesOf (WhereClause x1) =
     tablesOf x1"
| "tablesOf (JoinClause _ x2 x3) =
     tablesOf x2 @ (case x3 of None \<Rightarrow> [] | Some y \<Rightarrow> tablesOf y)"
| "tablesOf (GroupByClause x1) =
     concat (map tablesOf x1)"
| "tablesOf (HavingClause x1) =
     tablesOf x1"
| "tablesOf (OrderByClause x1) =
     concat (map tablesOf x1)"
| "tablesOf (OrderByColumn x1 _) =
     tablesOf x1"
| "tablesOf (LimitClause x1 x2) =
     tablesOf x1 @ (case x2 of None \<Rightarrow> [] | Some y \<Rightarrow> tablesOf y)"
| "tablesOf (Assignment _ x2) =
     tablesOf x2"
| "tablesOf (ValuesList x1) =
     concat (map tablesOf x1)"
| "tablesOf (BetweenRange x1 x2) =
     tablesOf x1 @ tablesOf x2"
| "tablesOf (Interval x1 _ _) =
     tablesOf x1"
| "tablesOf (SubQuery x1 _) =
     tablesOf x1"

fun columnsOf :: "node \<Rightarrow> string list" where
  "columnsOf (SelectStatement x1 x2 x3 x4 x5 x6 x7 x8 _ x10) =
     concat (map columnsOf x1) @ (case x2 of None \<Rightarrow> [] | Some y \<Rightarrow> columnsOf y) @ (case x3 of None \<Rightarrow> [] | Some y \<Rightarrow> columnsOf y) @ (case x4 of None \<Rightarrow> [] | Some y \<Rightarrow> columnsOf y) @ (case x5 of None \<Rightarrow> [] | Some y \<Rightarrow> columnsOf y) @ (case x6 of None \<Rightarrow> [] | Some y \<Rightarrow> columnsOf y) @ (case x7 of None \<Rightarrow> [] | Some y \<Rightarrow> columnsOf y) @ (case x8 of None \<Rightarrow> [] | Some y \<Rightarrow> columnsOf y) @ (case x10 of None \<Rightarrow> [] | Some y \<Rightarrow> columnsOf y)"
| "columnsOf (InsertStatement x1 _ x3) =
     columnsOf x1 @ concat (map columnsOf x3)"
| "columnsOf (UpdateStatement x1 x2 x3) =
     columnsOf x1 @ concat (map columnsOf x2) @ (case x3 of None \<Rightarrow> [] | Some y \<Rightarrow> columnsOf y)"
| "columnsOf (DeleteStatement x1 x2) =
     columnsOf x1 @ (case x2 of None \<Rightarrow> [] | Some y \<Rightarrow> columnsOf y)"
| "columnsOf (UnionStatement x1 x2 _ _ x5 x6 x7 x8) =
     columnsOf x1 @ columnsOf x2 @ (case x5 of None \<Rightarrow> [] | Some y \<Rightarrow> columnsOf y) @ (case x6 of None \<Rightarrow> [] | Some y \<Rightarrow> columnsOf y) @ (case x7 of None \<Rightarrow> [] | Some y \<Rightarrow> columnsOf y) @ (case x8 of None \<Rightarrow> [] | Some y \<Rightarrow> columnsOf y)"
| "columnsOf (WithClause _ x2) =
     concat (map columnsOf x2)"
| "columnsOf (CTEExpression _ _ x3) =
     columnsOf x3"
| "columnsOf (WindowFunction x1 x2 _) =
     columnsOf x1 @ columnsOf x2"
| "columnsOf (OverClause x1 x2 x3) =
     (case x1 of None \<Rightarrow> [] | Some ys \<Rightarrow> concat (map columnsOf ys)) @ (case x2 of None \<Rightarrow> [] | Some ys \<Rightarrow> concat (map columnsOf ys)) @ (case x3 of None \<Rightarrow> [] | Some y \<Rightarrow> columnsOf y)"
| "columnsOf (WindowFrame _ x2 x3) =
     (case x2 of None \<Rightarrow> [] | Some y \<Rightarrow> columnsOf y) @ (case x3 of None \<Rightarrow> [] | Some y \<Rightarrow> columnsOf y)"
| "columnsOf (FrameUnbounded _) =
     []"
| "columnsOf FrameCurrentRow =
     []"
| "columnsOf (FrameInterval x1 _ _) =
     columnsOf x1"
| "columnsOf (FrameOffset x1 _) =
     columnsOf x1"
| "columnsOf (BinaryExpression x1 _ x3 _) =
     columnsOf x1 @ columnsOf x3"
| "columnsOf (UnaryExpression _ x2 _) =
     columnsOf x2"
| "columnsOf (FunctionCall _ x2 _ _ _) =
     concat (map columnsOf x2)"
| "columnsOf (CaseExpression x1 x2 x3 _) =
     (case x1 of None \<Rightarrow> [] | Some y \<Rightarrow> columnsOf y) @ concat (map columnsOf x2) @ (case x3 of None \<Rightarrow> [] | Some y \<Rightarrow> columnsOf y)"
| "columnsOf (WhenClause x1 x2) =
     columnsOf x1 @ columnsOf x2"
| "columnsOf (Identifier x1 _) =
     (if x1 \<noteq> [] then [x1] else [])"
| "columnsOf (TableReference _ _ _) =
     []"
| "columnsOf (ColumnReference x1 _ _) =
     (if x1 \<noteq> [] then [x1] else [])"
| "columnsOf Wildcard =
     []"
| "columnsOf (Literal _ _ _) =
     []"
| "columnsOf (FromClause x1 x2) =
     concat (map columnsOf x1) @ concat (map columnsOf x2)"
| "columnsOf (WhereClause x1) =
     columnsOf x1"
| "columnsOf (JoinClause _ x2 x3) =
     columnsOf x2 @ (case x3 of None \<Rightarrow> [] | Some y \<Rightarrow> columnsOf y)"
| "columnsOf (GroupByClause x1) =
     concat (map columnsOf x1)"
| "columnsOf (HavingClause x1) =
     columnsOf x1"
| "columnsOf (OrderByClause x1) =
     concat (map columnsOf x1)"
| "columnsOf (OrderByColumn x1 _) =
     columnsOf x1"
| "columnsOf (LimitClause x1 x2) =
     columnsOf x1 @ (case x2 of None \<Rightarrow> [] | Some y \<Rightarrow> columnsOf y)"
| "columnsOf (Assignment _ x2) =
     columnsOf x2"
| "columnsOf (ValuesList x1) =
     concat (map columnsOf x1)"
| "columnsOf (BetweenRange x1 x2) =
     columnsOf x1 @ columnsOf x2"
| "columnsOf (Interval x1 _ _) =
     columnsOf x1"
| "columnsOf (SubQuery x1 _) =
     columnsOf x1"

definition setOrder :: "'a list \<Rightarrow> 'a list" where
  \<comment> \<open>\<open>Array.from(new Set(xs))\<close>: the first occurrence of each element, in order.\<close>
  "setOrder xs = rev (remdups (rev xs))"

definition extractTablesFromAST :: "node option \<Rightarrow> string list" where
  "extractTablesFromAST ast = (case ast of None \<Rightarrow> [] | Some a \<Rightarrow> tablesOf a)"

definition extractColumnsFromAST :: "node option \<Rightarrow> string list" where
  "extractColumnsFromAST ast = (case ast of None \<Rightarrow> [] | Some a \<Rightarrow> setOrder (columnsOf a))"

section \<open>The analyzer (\<open>analyzer/query-analyzer.js\<close>)\<close>

text \<open>
  The analyzer reads properties off nodes of any class. It is modelled on the classes of
  \<open>node\<close>; where a field holds a node of a class the parser never puts there, the model
  gives what the missing property gives (\<open>undefined\<close>), except in \<open>extractValue\<close> of the
  elements of \<open>whenClauses\<close>, which are taken to be \<open>WhenClause\<close> nodes.
\<close>

subsection \<open>Values and their strings\<close>

datatype jsval =
    VUndefined | VNull | VBool bool | VNumber jsnum | VStr string | VArr "jsval list"
  | VNode node

definition digitChar :: "nat \<Rightarrow> char" where
  "digitChar d = ''0123456789'' ! (d mod 10)"

function showNat :: "nat \<Rightarrow> string" where
  "showNat n = (if n < 10 then [digitChar n] else showNat (n div 10) @ [digitChar (n mod 10)])"
  by pat_completeness auto
termination
  by (relation "measure id") auto

declare showNat.simps [simp del]

function decimal :: "int \<Rightarrow> string" where
  \<comment> \<open>The decimal digits of an integer that is not negative.\<close>
  "decimal n =
     (if n < 10 then [digitChar (nat n)] else decimal (n div 10) @ [digitChar (nat (n mod 10))])"
  by pat_completeness auto
termination
  by (relation "measure nat") auto

declare decimal.simps [simp del]

text \<open>
  \<open>String(x)\<close> of a number \<open>0 < x\<close> takes the integers \<open>n\<close>, \<open>k\<close> and \<open>s\<close> with \<open>1 \<le> k\<close>,
  \<open>10^(k - 1) \<le> s < 10^k\<close> and \<open>x\<close> the Number value of \<open>s * 10^(n - k)\<close>, with \<open>k\<close> as small as
  possible and then \<open>s * 10^(n - k)\<close> as near to \<open>x\<close> as possible, an even \<open>s\<close> when two are
  equally near. For \<open>10^(n - 1) \<le> x < 10^n\<close>, \<open>digitChoices x n k\<close> is the list of the pairs
  \<open>(n, s)\<close> with \<open>k\<close> digits that read back as \<open>x\<close>, among the two next to \<open>x\<close>: every other
  one is farther from \<open>x\<close>. The one above \<open>x\<close> may be \<open>10^n\<close>, which is the pair
  \<open>(n + 1, 10^(k - 1))\<close>. 17 digits always read back.
\<close>

definition digitChoices :: "rat \<Rightarrow> int \<Rightarrow> nat \<Rightarrow> (int \<times> int) list" where
  "digitChoices x n k =
     (let f = \<lfloor>scale10 x (int k - n)\<rfloor>
      in filter (\<lambda>(n', s). numberValue (scale10 (of_int s) (n' - int k)) = Num x)
           [(n, f), if f + 1 < 10 ^ k then (n, f + 1) else (n + 1, 10 ^ (k - 1))])"

definition closest :: "rat \<Rightarrow> nat \<Rightarrow> (int \<times> int) list \<Rightarrow> (int \<times> int) option" where
  "closest x k cs =
     (case cs of
        [] \<Rightarrow> None
      | [c] \<Rightarrow> Some c
      | c1 # c2 # r \<Rightarrow>
          (let d1 = \<bar>scale10 (of_int (snd c1)) (fst c1 - int k) - x\<bar>;
               d2 = \<bar>scale10 (of_int (snd c2)) (fst c2 - int k) - x\<bar>
           in Some (if d1 < d2 then c1 else if d2 < d1 then c2
                    else if even (snd c1) then c1 else c2)))"

primrec shortest :: "rat \<Rightarrow> int \<Rightarrow> nat list \<Rightarrow> int \<times> nat \<times> int" where
  \<comment> \<open>\<open>(n, k, s)\<close> for the first \<open>k\<close> of the list that has a choice.\<close>
  "shortest x n [] = (n, 17, \<lfloor>scale10 x (17 - n)\<rfloor>)"
| "shortest x n (k # ks) =
     (case closest x k (digitChoices x n k) of
        Some (n', s) \<Rightarrow> (n', k, s)
      | None \<Rightarrow> shortest x n ks)"

definition formatDigits :: "int \<times> nat \<times> int \<Rightarrow> string" where
  \<comment> \<open>The digits of \<open>s\<close> with the point after the first \<open>n\<close> of them when \<open>- 5 \<le> n \<le> 21\<close>,
      and with an exponent otherwise.\<close>
  "formatDigits t =
     (case t of (n, k, s) \<Rightarrow>
        (let ds = decimal s in
         if - 5 \<le> n \<and> n \<le> 21 then
           (if int k \<le> n then ds @ replicate (nat (n - int k)) CHR ''0''
            else if 0 < n then take (nat n) ds @ ''.'' @ drop (nat n) ds
            else ''0.'' @ replicate (nat (- n)) CHR ''0'' @ ds)
         else
           (let e = n - 1; es = (if e < 0 then ''-'' else ''+'') @ decimal \<bar>e\<bar>
            in if k = 1 then ds @ ''e'' @ es else take 1 ds @ ''.'' @ drop 1 ds @ ''e'' @ es)))"

definition numToString :: "jsnum \<Rightarrow> string" where
  \<comment> \<open>\<open>String(x)\<close> of a number.\<close>
  "numToString x =
     (case x of
        NaN \<Rightarrow> ''NaN''
      | NegZero \<Rightarrow> ''0''
      | Infinity neg \<Rightarrow> (if neg then ''-Infinity'' else ''Infinity'')
      | Num r \<Rightarrow>
          (if r = 0 then ''0''
           else (if r < 0 then ''-'' else []) @
                formatDigits (shortest \<bar>r\<bar> (magnitude 10 \<bar>r\<bar> + 1) [1..<18])))"

definition join :: "string \<Rightarrow> string list \<Rightarrow> string" where
  \<comment> \<open>\<open>Array.prototype.join\<close> on strings.\<close>
  "join sep xs = (case xs of [] \<Rightarrow> [] | x # r \<Rightarrow> foldl (\<lambda>acc y. acc @ sep @ y) x r)"

fun toStr :: "jsval \<Rightarrow> string" where
  \<comment> \<open>The string a template literal puts in for a value; an array joins its elements
      with a comma, \<open>null\<close> and \<open>undefined\<close> elements as the empty string.\<close>
  "toStr VUndefined = ''undefined''"
| "toStr VNull = ''null''"
| "toStr (VBool b) = (if b then ''true'' else ''false'')"
| "toStr (VNumber x) = numToString x"
| "toStr (VStr s) = s"
| "toStr (VArr xs) =
     join '','' (map (\<lambda>v. if v = VNull \<or> v = VUndefined then [] else toStr v) xs)"
| "toStr (VNode n) = ''[object Object]''"

definition joinVals :: "string \<Rightarrow> jsval list \<Rightarrow> string" where
  \<comment> \<open>\<open>xs.join(sep)\<close> on values.\<close>
  "joinVals sep xs = join sep (map (\<lambda>v. if v = VNull \<or> v = VUndefined then [] else toStr v) xs)"

definition litToVal :: "litval \<Rightarrow> jsval" where
  "litToVal v = (case v of LStr s \<Rightarrow> VStr s | LNumber x \<Rightarrow> VNumber x | LBool b \<Rightarrow> VBool b
                 | LNull \<Rightarrow> VNull)"

definition typeOrUnknown :: "node \<Rightarrow> string" where
  \<comment> \<open>\<^verbatim>\<open>`[${node.type || 'Unknown'}]`\<close>\<close>
  "typeOrUnknown n = ''['' @ (if node_type n = [] then ''Unknown'' else node_type n) @ '']''"

fun extractValue :: "node \<Rightarrow> jsval" where
  "extractValue (Literal v _ _) = litToVal v"
| "extractValue (Identifier n _) = VStr n"
| "extractValue (ColumnReference n t _) =
     VStr (case t of None \<Rightarrow> n | Some tn \<Rightarrow> if tn = [] then n else tn @ ''.'' @ n)"
| "extractValue (TableReference n _ _) = VStr n"
| "extractValue (BinaryExpression l ope r _) =
     VStr (toStr (extractValue l) @ '' '' @ ope @ '' '' @ toStr (extractValue r))"
| "extractValue (UnaryExpression ope x _) = VStr (ope @ '' '' @ toStr (extractValue x))"
| "extractValue (FunctionCall n args _ _ _) =
     VStr (n @ ''('' @ joinVals '', '' (map extractValue args) @ '')'')"
| "extractValue (CaseExpression e ws el _) =
     VStr (''CASE'' @
       (case e of None \<Rightarrow> [] | Some x \<Rightarrow> '' '' @ toStr (extractValue x)) @
       concat (map (\<lambda>w. '' '' @ toStr (extractValue w)) ws) @
       (case el of None \<Rightarrow> [] | Some x \<Rightarrow> '' ELSE '' @ toStr (extractValue x)) @
       '' END'')"
| "extractValue (WhenClause c r) =
     VStr (''WHEN '' @ toStr (extractValue c) @ '' THEN '' @ toStr (extractValue r))"
| "extractValue (BetweenRange s e) =
     VStr (''BETWEEN '' @ toStr (extractValue s) @ '' AND '' @ toStr (extractValue e))"
| "extractValue (ValuesList vs) = VStr (''('' @ joinVals '', '' (map extractValue vs) @ '')'')"
| "extractValue (Assignment col v) =
     VStr ((if col = [] then ''null'' else ''unknown'') @ '' = '' @ toStr (extractValue v))"
| "extractValue (WhereClause c) = extractValue c"
| "extractValue (FromClause ts js) = VStr (joinVals '', '' (map extractValue ts))"
| "extractValue (JoinClause jt t c) =
     VStr (jt @ '' '' @ toStr (extractValue t) @
       (case c of None \<Rightarrow> [] | Some x \<Rightarrow> '' ON '' @ toStr (extractValue x)))"
| "extractValue (OrderByColumn c d) = VStr (toStr (extractValue c) @ '' '' @ d)"
| "extractValue (LimitClause c off) =
     VStr (case off of None \<Rightarrow> ''LIMIT [object Object]''
           | Some _ \<Rightarrow> ''LIMIT [object Object], [object Object]'')"
| "extractValue (Interval v u a) = VNode v"
| "extractValue (FrameInterval v u d) = VNode v"
| "extractValue (FrameOffset v d) = VNode v"
| "extractValue Wildcard = VStr ''*''"
| "extractValue (CTEExpression n cs q) = VStr n"
| "extractValue x = VStr (typeOrUnknown x)"

fun extractFieldName :: "node \<Rightarrow> string" where
  \<comment> \<open>The \<open>FunctionCall\<close> case is \<open>formatFunctionCall\<close>.\<close>
  "extractFieldName (Identifier n _) = n"
| "extractFieldName (FunctionCall n args _ _ _) =
     n @ ''('' @ join '', '' (map extractFieldName args) @ '')''"
| "extractFieldName (ColumnReference n _ _) = (if n = [] then ''unknown'' else n)"
| "extractFieldName (TableReference n _ _) = (if n = [] then ''unknown'' else n)"
| "extractFieldName (CTEExpression n _ _) = (if n = [] then ''unknown'' else n)"
| "extractFieldName Wildcard = ''*''"
| "extractFieldName x = ''unknown''"

definition formatFunctionCall :: "node \<Rightarrow> string" where
  "formatFunctionCall f = extractFieldName f"

subsection \<open>Conditions\<close>

record condition =
  cond_field :: string
  cond_operator :: string
  cond_value :: jsval
  cond_type :: string

definition getConditionType :: "string \<Rightarrow> string" where
  "getConditionType operator =
     (if operator \<in> set [''='', ''!='', ''<>''] then ''equality''
      else if operator \<in> set [''>'', ''<'', ''>='', ''<=''] then ''comparison''
      else if operator \<in> set [''LIKE'', ''ILIKE''] then ''pattern''
      else if operator = ''IN'' then ''list''
      else if operator = ''BETWEEN'' then ''range''
      else ''other'')"

fun traverseCondition :: "node \<Rightarrow> condition list" where
  \<comment> \<open>The conditions \<open>traverseCondition\<close> pushes, in order.\<close>
  "traverseCondition (BinaryExpression l ope r a) =
     (if ope \<in> set [''='', ''!='', ''<>'', ''>'', ''<'', ''>='', ''<='', ''LIKE'', ''ILIKE'', ''IN'',
                     ''BETWEEN'']
      then [\<lparr>cond_field = extractFieldName l, cond_operator = ope, cond_value = extractValue r,
              cond_type = getConditionType ope\<rparr>]
      else if ope \<in> set [''AND'', ''OR''] then traverseCondition l @ traverseCondition r
      else [])"
| "traverseCondition (UnaryExpression ope x a) = (if ope = ''NOT'' then traverseCondition x else [])"
| "traverseCondition x = []"

definition extractConditions :: "node option \<Rightarrow> condition list" where
  "extractConditions whereClause =
     (case whereClause of
        None \<Rightarrow> []
      | Some (WhereClause c) \<Rightarrow> traverseCondition c
      | Some w \<Rightarrow> traverseCondition w)"

subsection \<open>Fields, tables, joins, ordering\<close>

record fieldInfo =
  fi_name :: "string option"
  fi_alias :: "string option"
  fi_type :: string
  fi_table :: "string option"
  fi_expression :: "string option"
  fi_aggregation :: "bool option"

fun aliasOf :: "node \<Rightarrow> string option" where
  \<comment> \<open>The \<open>alias\<close> property.\<close>
  "aliasOf (WindowFunction _ _ a) = a"
| "aliasOf (BinaryExpression _ _ _ a) = a"
| "aliasOf (UnaryExpression _ _ a) = a"
| "aliasOf (FunctionCall _ _ _ _ a) = a"
| "aliasOf (CaseExpression _ _ _ a) = a"
| "aliasOf (TableReference _ a _) = a"
| "aliasOf (ColumnReference _ _ a) = a"
| "aliasOf (Literal _ _ a) = a"
| "aliasOf (Interval _ _ a) = a"
| "aliasOf (SubQuery _ a) = a"
| "aliasOf x = None"

fun nameOf :: "node \<Rightarrow> string option" where
  \<comment> \<open>The \<open>name\<close> property.\<close>
  "nameOf (CTEExpression n _ _) = Some n"
| "nameOf (FunctionCall n _ _ _ _) = Some n"
| "nameOf (Identifier n _) = Some n"
| "nameOf (TableReference n _ _) = Some n"
| "nameOf (ColumnReference n _ _) = Some n"
| "nameOf Wildcard = Some ''*''"
| "nameOf x = None"

definition orElse :: "string option \<Rightarrow> string \<Rightarrow> string" where
  \<comment> \<open>\<open>a || d\<close> on a string that may be absent: the empty string is falsy.\<close>
  "orElse a d = (case a of None \<Rightarrow> d | Some s \<Rightarrow> if s = [] then d else s)"

definition isAggregateFunction :: "string \<Rightarrow> bool" where
  "isAggregateFunction functionName =
     (toUpperCase functionName \<in> set [''COUNT'', ''SUM'', ''AVG'', ''MAX'', ''MIN'', ''GROUP_CONCAT''])"

definition caseLabel :: string where
  \<comment> \<open>The string \<open>CASE\<close> followed by the three characters U+8868 U+8FBE U+5F0F
      ("expression"), in UTF-8.\<close>
  "caseLabel = ''CASE'' @ map char_of
     [0xE8, 0xA1, 0xA8, 0xE8, 0xBE, 0xBE, 0xE5, 0xBC, 0x8F :: nat]"

definition complexLabel :: string where
  \<comment> \<open>The five characters U+590D U+6742 U+8868 U+8FBE U+5F0F ("complex expression"), in
      UTF-8.\<close>
  "complexLabel = map char_of
     [0xE5, 0xA4, 0x8D, 0xE6, 0x9D, 0x82, 0xE8, 0xA1, 0xA8, 0xE8, 0xBE, 0xBE, 0xE5, 0xBC, 0x8F :: nat]"

definition extractField :: "node \<Rightarrow> fieldInfo" where
  \<comment> \<open>The function \<open>extractFields\<close> maps over the select list.\<close>
  "extractField field =
     (let info = \<lparr>fi_name = None, fi_alias = aliasOf field, fi_type = ''column'', fi_table = None,
                  fi_expression = None, fi_aggregation = None\<rparr>
      in case field of
           ColumnReference n t a \<Rightarrow> info\<lparr>fi_name := Some n, fi_table := t, fi_type := ''column''\<rparr>
         | Identifier n t \<Rightarrow> info\<lparr>fi_name := Some n, fi_type := ''column''\<rparr>
         | FunctionCall n args ex di a \<Rightarrow>
             info\<lparr>fi_name := Some n, fi_type := ''function'',
                  fi_aggregation := Some (isAggregateFunction n),
                  fi_expression := Some (formatFunctionCall field)\<rparr>
         | CaseExpression e ws el a \<Rightarrow>
             info\<lparr>fi_name := Some (orElse a ''case_expression''), fi_type := ''case'',
                  fi_expression := Some caseLabel\<rparr>
         | _ \<Rightarrow>
             info\<lparr>fi_name := Some (orElse (aliasOf field) ''expression''), fi_type := ''expression'',
                  fi_expression := Some complexLabel\<rparr>)"

definition extractFields :: "node list \<Rightarrow> fieldInfo list" where
  "extractFields selectList = map extractField selectList"

datatype tableEntry =
    TableInfo string "string option" "string option"
  | TableName string

definition extractTable :: "node \<Rightarrow> tableEntry list" where
  \<comment> \<open>What \<open>extractTable\<close> pushes; no node has the type \<open>JoinExpression\<close>.\<close>
  "extractTable n = (case n of TableReference nm al sc \<Rightarrow> [TableInfo nm al sc] | _ \<Rightarrow> [])"

fun tableProp :: "node \<Rightarrow> node option" where
  \<comment> \<open>The \<open>table\<close> property, when it is a node.\<close>
  "tableProp (JoinClause _ t _) = Some t"
| "tableProp (InsertStatement t _ _) = Some t"
| "tableProp (UpdateStatement t _ _) = Some t"
| "tableProp x = None"

definition extractTableInfo :: "node option \<Rightarrow> tableEntry list" where
  "extractTableInfo fromClause =
     (case fromClause of
        None \<Rightarrow> []
      | Some (FromClause ts js) \<Rightarrow>
          concat (map extractTable ts) @
          concat (map (\<lambda>j. case tableProp j of None \<Rightarrow> [] | Some t \<Rightarrow> extractTable t) js)
      | Some other \<Rightarrow> extractTable other)"

record joinCondition =
  jc_left :: string
  jc_operator :: string
  jc_right :: string

record joinInfo =
  ji_type :: string
  ji_table :: "string option"
  ji_alias :: "string option"
  ji_condition :: "joinCondition option"

definition extractJoinCondition :: "node \<Rightarrow> joinCondition option" where
  "extractJoinCondition c =
     (case c of
        BinaryExpression l ope r a \<Rightarrow>
          Some \<lparr>jc_left = extractFieldName l, jc_operator = ope, jc_right = extractFieldName r\<rparr>
      | _ \<Rightarrow> None)"

fun conditionProp :: "node \<Rightarrow> node option" where
  \<comment> \<open>The \<open>condition\<close> property.\<close>
  "conditionProp (JoinClause _ _ c) = c"
| "conditionProp (WhereClause c) = Some c"
| "conditionProp (HavingClause c) = Some c"
| "conditionProp (WhenClause c _) = Some c"
| "conditionProp x = None"

primrec extractJoinInfo :: "node list \<Rightarrow> exn + joinInfo list" where
  \<comment> \<open>\<open>join.type\<close> is the node's class name (the join kind is \<open>joinType\<close>);
      \<open>join.table.name\<close> throws when the element has no \<open>table\<close>.\<close>
  "extractJoinInfo [] = Inr []"
| "extractJoinInfo (j # js) =
     (case tableProp j of
        None \<Rightarrow> Inl typeError
      | Some t \<Rightarrow>
          (case extractJoinInfo js of
             Inl e \<Rightarrow> Inl e
           | Inr r \<Rightarrow>
               Inr (\<lparr>ji_type = node_type j, ji_table = nameOf t, ji_alias = aliasOf t,
                     ji_condition = (case conditionProp j of None \<Rightarrow> None
                                     | Some c \<Rightarrow> extractJoinCondition c)\<rparr> # r)))"

record orderInfo =
  oi_field :: "string option"
  oi_direction :: string

definition extractOrderBy :: "node option \<Rightarrow> orderInfo list" where
  "extractOrderBy orderBy =
     (case orderBy of
        Some (OrderByClause cols) \<Rightarrow>
          map (\<lambda>item. case item of
                 OrderByColumn c d \<Rightarrow>
                   \<lparr>oi_field = Some (extractFieldName c),
                    oi_direction = (if d = [] then ''ASC'' else d)\<rparr>
               | _ \<Rightarrow> \<lparr>oi_field = None, oi_direction = ''ASC''\<rparr>) cols
      | _ \<Rightarrow> [])"

definition extractGroupBy :: "node option \<Rightarrow> string list" where
  "extractGroupBy groupBy =
     (case groupBy of Some (GroupByClause cols) \<Rightarrow> map extractFieldName cols | _ \<Rightarrow> [])"

record limitInfo =
  li_count :: jsval
  li_offset :: jsval

definition extractLimit :: "node option \<Rightarrow> limitInfo option" where
  "extractLimit limit =
     (case limit of
        Some (LimitClause c off) \<Rightarrow>
          Some \<lparr>li_count = extractValue c,
                li_offset = (case off of None \<Rightarrow> VNull | Some x \<Rightarrow> extractValue x)\<rparr>
      | _ \<Rightarrow> None)"

subsection \<open>The analysis and its complexity\<close>

record analysis =
  conditions :: "condition list"
  fields' :: "fieldInfo list"
  tables :: "tableEntry list"
  joins :: "joinInfo list"
  orderBy :: "orderInfo list"
  groupBy :: "string list"
  limit :: "limitInfo option"

definition zh :: "nat list \<Rightarrow> string" where
  \<comment> \<open>A string given by its UTF-8 bytes.\<close>
  "zh bs = map char_of bs"

definition analyzeSelectQuery :: "node \<Rightarrow> exn + analysis" where
  "analyzeSelectQuery ast =
     (case ast of
        SelectStatement cols fr wh gb hv ob lm off di wi \<Rightarrow>
          (case extractJoinInfo (case fr of Some (FromClause ts js) \<Rightarrow> js | _ \<Rightarrow> []) of
             Inl e \<Rightarrow> Inl e
           | Inr ji \<Rightarrow>
               Inr \<lparr>conditions = extractConditions wh, fields' = extractFields cols,
                    tables = extractTableInfo fr, joins = ji, orderBy = extractOrderBy ob,
                    groupBy = extractGroupBy gb, limit = extractLimit lm\<rparr>)
      | _ \<Rightarrow>
          Inl (JSError
                 (zh [0xE5, 0x8F, 0xAA, 0xE6, 0x94, 0xAF, 0xE6, 0x8C, 0x81] @ ''SELECT'' @
                  zh [0xE6, 0x9F, 0xA5, 0xE8, 0xAF, 0xA2, 0xE7, 0x9A, 0x84, 0xE5, 0x88, 0x86,
                      0xE6, 0x9E, 0x90])))"

record complexity =
  level :: string
  score :: nat
  factors :: "string list"

definition scored :: "bool \<Rightarrow> nat \<Rightarrow> string \<Rightarrow> complexity \<Rightarrow> complexity" where
  \<comment> \<open>\<open>if (b) { complexity.score += k; complexity.factors.push(f); }\<close>\<close>
  "scored b k f c = (if b then c\<lparr>score := score c + k, factors := factors c @ [f]\<rparr> else c)"

definition levelOf :: "nat \<Rightarrow> string" where
  "levelOf s = (if s \<le> 5 then ''simple'' else if s \<le> 15 then ''medium'' else ''complex'')"

definition analyzeQueryComplexity :: "analysis \<Rightarrow> complexity" where
  \<comment> \<open>The factor strings end in the source's Chinese words for "query conditions",
      "tables", "JOIN" and "aggregate functions".\<close>
  "analyzeQueryComplexity a =
     (let nc = length (conditions a);
          nt = length (tables a);
          nj = length (joins a);
          aggregateFields = filter (\<lambda>f. fi_aggregation f = Some True) (fields' a);
          na = length aggregateFields;
          c =
            (scored (length (orderBy a) > 0) 2 ''ORDER BY''
            (scored (length (groupBy a) > 0) 3 ''GROUP BY''
            (scored (na > 0) (na * 2) (showNat na @
               zh [0xE4, 0xB8, 0xAA, 0xE8, 0x81, 0x9A, 0xE5, 0x90, 0x88, 0xE5, 0x87, 0xBD,
                   0xE6, 0x95, 0xB0])
            (scored (nj > 0) (nj * 4) (showNat nj @ zh [0xE4, 0xB8, 0xAA] @ ''JOIN'')
            (scored (nt > 1) ((nt - 1) * 3) (showNat nt @ zh [0xE4, 0xB8, 0xAA, 0xE8, 0xA1, 0xA8])
            (scored (nc > 0) (nc * 2) (showNat nc @
               zh [0xE4, 0xB8, 0xAA, 0xE6, 0x9F, 0xA5, 0xE8, 0xAF, 0xA2, 0xE6, 0x9D, 0xA1,
                   0xE4, 0xBB, 0xB6])
              \<lparr>level = ''simple'', score = 0, factors = []\<rparr>))))))
      in c\<lparr>level := levelOf (score c)\<rparr>)"

lemma score_scored [simp]: "score (scored b k f c) = score c + (if b then k else 0)"
  by (simp add: scored_def)


section \<open>The entry points (\<open>index.js\<close>)\<close>

text \<open>
  An entry point returns a value or throws; the model adds \<open>Unfinished\<close> for a parse
  that used up its bound. The argument of \<open>parseSQL\<close> is any value: a string, or an
  object (\<open>analyzeSQL\<close> passes a tree to \<open>extractTables\<close>).
\<close>

datatype 'a outcome = Returns 'a | Throws exn | Unfinished

datatype jsarg = JSString string | JSObject node

record options =
  opt_strict :: bool
  opt_includeComments :: bool
  opt_includeWhitespace :: bool
  opt_includeTokens :: bool

definition defaultOptions :: options where
  "defaultOptions = \<lparr>opt_strict = False, opt_includeComments = False,
                      opt_includeWhitespace = False, opt_includeTokens = False\<rparr>"

record parseResult =
  success :: bool
  ast :: "node option"
  pr_tables :: "string list"
  pr_columns :: "string list"
  pr_tokens :: "token list option"
  errors :: "exn list"

definition failed :: "exn \<Rightarrow> parseResult" where
  \<comment> \<open>The \<open>catch\<close> of \<open>parseSQL\<close>: the error's JSON, or an \<open>UNEXPECTED_ERROR\<close> record
      for an exception that is no \<open>SQLError\<close>.\<close>
  "failed e =
     \<lparr>success = False, ast = None, pr_tables = [], pr_columns = [], pr_tokens = None,
      errors = [case e of SQLError m k l c x \<Rightarrow> e
                | JSError m \<Rightarrow> SQLError m (Code ''UNEXPECTED_ERROR'') 0 0 []]\<rparr>"

definition parseSQL :: "nat \<Rightarrow> jsarg \<Rightarrow> options \<Rightarrow> parseResult outcome" where
  "parseSQL n sqlString opts =
     (case sqlString of
        JSObject _ \<Rightarrow> Throws (SQLError ''Input must be a string'' (Code ''INVALID_INPUT'') 0 0 [])
      | JSString s \<Rightarrow>
          (case tokenize (new_Lexer s (opt_includeWhitespace opts) (opt_includeComments opts)) of
             Inl e \<Rightarrow> Returns (failed e)
           | Inr toks \<Rightarrow>
               (case parse n (new_Parser toks (opt_strict opts)) of
                  OutOfFuel \<Rightarrow> Unfinished
                | Throw e \<Rightarrow> Returns (failed e)
                | Ok a p \<Rightarrow>
                    Returns \<lparr>success = True, ast = Some a,
                             pr_tables = extractTablesFromAST (Some a),
                             pr_columns = extractColumnsFromAST (Some a),
                             pr_tokens = (if opt_includeTokens opts then Some toks else None),
                             errors = []\<rparr>)))"

record validation =
  valid :: bool
  v_errors :: "exn list"

definition messageOf :: "exn \<Rightarrow> string" where
  "messageOf e = (case e of SQLError m k l c x \<Rightarrow> m | JSError m \<Rightarrow> m)"

definition validateSQL :: "nat \<Rightarrow> jsarg \<Rightarrow> options \<Rightarrow> validation outcome" where
  "validateSQL n sqlString opts =
     (case parseSQL n sqlString opts of
        Returns r \<Rightarrow> Returns \<lparr>valid = success r, v_errors = errors r\<rparr>
      | Throws e \<Rightarrow>
          Returns \<lparr>valid = False,
                   v_errors = [SQLError (messageOf e) (Code ''VALIDATION_ERROR'') 0 0 []]\<rparr>
      | Unfinished \<Rightarrow> Unfinished)"

definition extractTables :: "nat \<Rightarrow> jsarg \<Rightarrow> string list outcome" where
  \<comment> \<open>The exported \<open>extractTables(sqlString)\<close>: it parses its argument.\<close>
  "extractTables n sqlString =
     (case parseSQL n sqlString defaultOptions of
        Returns r \<Rightarrow>
          (if \<not> success r then Returns []
           else Returns (case ast r of None \<Rightarrow> [] | Some a \<Rightarrow> setOrder (tablesOf a)))
      | Throws e \<Rightarrow> Returns []
      | Unfinished \<Rightarrow> Unfinished)"

record analyzeResult =
  a_success :: bool
  a_error :: "string option"
  a_query_type :: string
  a_query_sql :: string
  a_analysis :: "analysis option"
  a_complexity :: "complexity option"
  a_ast :: "parseResult option"

definition analyzeFailed :: "string \<Rightarrow> string \<Rightarrow> analyzeResult" where
  "analyzeFailed msg sql =
     \<lparr>a_success = False, a_error = Some msg, a_query_type = ''unknown'', a_query_sql = trim sql,
      a_analysis = None, a_complexity = None, a_ast = None\<rparr>"

definition analyzeSQL :: "nat \<Rightarrow> string \<Rightarrow> options \<Rightarrow> analyzeResult outcome" where
  "analyzeSQL n sql opts =
     (case parseSQL n (JSString sql) opts of
        Unfinished \<Rightarrow> Unfinished
      | Throws e \<Rightarrow> Returns (analyzeFailed (messageOf e) sql)
      | Returns parseResult \<Rightarrow>
          if \<not> success parseResult then
            Returns (analyzeFailed
              (case errors parseResult of [] \<Rightarrow> ''Parse failed''
               | e # _ \<Rightarrow> if messageOf e = [] then ''Parse failed'' else messageOf e) sql)
          else
            (case ast parseResult of
               None \<Rightarrow> Returns (analyzeFailed (messageOf typeError) sql)
             | Some a \<Rightarrow>
                 if node_type a = ''SelectStatement'' then
                   (case analyzeSelectQuery a of
                      Inl e \<Rightarrow> Returns (analyzeFailed (messageOf e) sql)
                    | Inr an \<Rightarrow>
                        Returns \<lparr>a_success = True, a_error = None, a_query_type = node_type a,
                                 a_query_sql = trim sql, a_analysis = Some an,
                                 a_complexity = Some (analyzeQueryComplexity an),
                                 a_ast = Some parseResult\<rparr>)
                 else
                   (case extractTables n (JSObject a) of
                      Unfinished \<Rightarrow> Unfinished
                    | Throws e \<Rightarrow> Returns (analyzeFailed (messageOf e) sql)
                    | Returns ts \<Rightarrow>
                        Returns \<lparr>a_success = True, a_error = None, a_query_type = node_type a,
                                 a_query_sql = trim sql,
                                 a_analysis = Some \<lparr>conditions = [], fields' = [],
                                   tables = map TableName ts, joins = [], orderBy = [],
                                   groupBy = [], limit = None\<rparr>,
                                 a_complexity = Some \<lparr>level = ''simple'', score = 0, factors = []\<rparr>,
                                 a_ast = Some parseResult\<rparr>)))"


section \<open>Properties of the parser\<close>

subsection \<open>Predicates on trees\<close>

text \<open>
  \<open>exprNode\<close> holds of the nodes the expression parser builds at the root of an
  expression. \<open>whereOf\<close> is the \<open>where\<close> property of a statement. \<open>noOrderLimit\<close>
  holds of a chain of \<open>UNION\<close>s no node of which carries an \<open>ORDER BY\<close> or a \<open>LIMIT\<close>, and
  \<open>chainOK\<close> of a statement whose operands, when it is a \<open>UNION\<close>, are such chains.
\<close>

definition exprNode :: "node \<Rightarrow> bool" where
  "exprNode e \<longleftrightarrow>
     node_type e \<in> set [''BinaryExpression'', ''UnaryExpression'', ''SubQuery'', ''Interval'',
       ''Literal'', ''CaseExpression'', ''FunctionCall'', ''WindowFunction'', ''ColumnReference'']"


fun whereOf :: "node \<Rightarrow> node option" where
  "whereOf (SelectStatement cols fr wh gb hv ob lm off di wi) = wh"
| "whereOf (UpdateStatement t s wh) = wh"
| "whereOf (DeleteStatement t wh) = wh"
| "whereOf x = None"

fun noOrderLimit :: "node \<Rightarrow> bool" where
  "noOrderLimit (SelectStatement cols fr wh gb hv ob lm off di wi) = (ob = None \<and> lm = None)"
| "noOrderLimit (UnionStatement l r ty al ob lm off wi) =
     (ob = None \<and> lm = None \<and> noOrderLimit l \<and> noOrderLimit r)"
| "noOrderLimit x = False"

fun chainOK :: "node \<Rightarrow> bool" where
  "chainOK (UnionStatement l r ty al ob lm off wi) = (noOrderLimit l \<and> noOrderLimit r)"
| "chainOK x = True"

definition bareWhere :: "node \<Rightarrow> bool" where
  "bareWhere s \<longleftrightarrow> (case whereOf s of None \<Rightarrow> True | Some w \<Rightarrow> exprNode w)"

subsection \<open>What the expression parser returns\<close>




lemma exprNode_simps [simp]:
  "exprNode (BinaryExpression l ope r a)" "exprNode (UnaryExpression ope x a)"
  "exprNode (SubQuery q a)" "exprNode (Interval v u a)" "exprNode (Literal lv d a)"
  "exprNode (CaseExpression ce ws el a)" "exprNode (FunctionCall f args ex di a)"
  "exprNode (WindowFunction fn ov a)" "exprNode (ColumnReference c t a)"
  by (simp_all add: exprNode_def)
























lemma chainOK_setWith [simp]: "chainOK (setWith w q) = chainOK q"
  by (cases q) auto



lemma bareWhere_setOrderLimit [simp]: "bareWhere (setOrderLimit ob lm q) = bareWhere q"
  by (cases q) (auto simp: bareWhere_def)

lemma bareWhere_setWith [simp]: "bareWhere (setWith w q) = bareWhere q"
  by (cases q) (auto simp: bareWhere_def)

lemma bareWhere_other [simp]:
  "bareWhere (UnionStatement l r ty al ob lm off wi)" "bareWhere (InsertStatement t cs vs)"
  by (simp_all add: bareWhere_def)




section \<open>Properties of the analyzer and the entry points\<close>

subsection \<open>Reading a result\<close>

definition analysisOf :: "analyzeResult outcome \<Rightarrow> analysis option" where
  \<comment> \<open>The analysis of a call of \<open>analyzeSQL\<close> that returned \<open>success: true\<close>.\<close>
  "analysisOf r =
     (case r of Returns x \<Rightarrow> if a_success x then a_analysis x else None
      | Throws e \<Rightarrow> None | Unfinished \<Rightarrow> None)"

definition complexityOf :: "analyzeResult outcome \<Rightarrow> complexity option" where
  "complexityOf r =
     (case r of Returns x \<Rightarrow> if a_success x then a_complexity x else None
      | Throws e \<Rightarrow> None | Unfinished \<Rightarrow> None)"

definition conditionTypes :: "analyzeResult outcome \<Rightarrow> string list option" where
  "conditionTypes r = map_option (\<lambda>a. map cond_type (conditions a)) (analysisOf r)"

definition aggregates :: "analysis \<Rightarrow> fieldInfo list" where
  \<comment> \<open>\<open>analysisResult.fields.filter((f) => f.aggregation)\<close>\<close>
  "aggregates a = filter (\<lambda>f. fi_aggregation f = Some True) (fields' a)"

definition plainSelect :: "analysis \<Rightarrow> bool" where
  \<comment> \<open>At most one table, no join, no aggregate field, no \<open>GROUP BY\<close>, no \<open>ORDER BY\<close>.\<close>
  "plainSelect a \<longleftrightarrow>
     length (tables a) \<le> 1 \<and> joins a = [] \<and> aggregates a = [] \<and> groupBy a = [] \<and> orderBy a = []"

definition astOf :: "parseResult outcome \<Rightarrow> node option" where
  "astOf r = (case r of Returns x \<Rightarrow> ast x | Throws e \<Rightarrow> None | Unfinished \<Rightarrow> None)"

definition parsedTables :: "parseResult outcome \<Rightarrow> string list option" where
  "parsedTables r = (case r of Returns x \<Rightarrow> Some (pr_tables x) | Throws e \<Rightarrow> None
                     | Unfinished \<Rightarrow> None)"

subsection \<open>Lemmas\<close>

lemma score_analyzeQueryComplexity:
  "score (analyzeQueryComplexity a) =
     2 * length (conditions a) + 3 * (length (tables a) - 1) + 4 * length (joins a) +
     2 * length (aggregates a) +
     (if groupBy a \<noteq> [] then 3 else 0) + (if orderBy a \<noteq> [] then 2 else 0)"
  by (simp add: analyzeQueryComplexity_def Let_def aggregates_def)

lemma level_analyzeQueryComplexity:
  "level (analyzeQueryComplexity a) = levelOf (score (analyzeQueryComplexity a))"
  by (simp add: analyzeQueryComplexity_def Let_def)

lemma analyzeSQL_Select:
  assumes "tokenize (new_Lexer sql False False) = Inr toks"
    and "parse n (new_Parser toks False) = Ok a p"
    and "node_type a = ''SelectStatement''"
    and "analyzeSelectQuery a = Inr an"
  shows "analysisOf (analyzeSQL n sql defaultOptions) = Some an \<and>
         complexityOf (analyzeSQL n sql defaultOptions) = Some (analyzeQueryComplexity an)"
  using assms
  by (simp add: analyzeSQL_def parseSQL_def defaultOptions_def analysisOf_def complexityOf_def)

lemma analyzeSelectQuery_no_joins:
  "analyzeSelectQuery (SelectStatement cols (Some (FromClause ts [])) wh gb hv ob lm off di wi) =
     Inr \<lparr>conditions = extractConditions wh, fields' = extractFields cols,
          tables = extractTableInfo (Some (FromClause ts [])), joins = [],
          orderBy = extractOrderBy ob, groupBy = extractGroupBy gb, limit = extractLimit lm\<rparr>"
  by (simp add: analyzeSelectQuery_def)

lemma analyzeSQL_complexity:
  assumes "analyzeSQL n sql opts = Returns r" and "a_success r"
    and "a_query_type r = ''SelectStatement''" and "a_analysis r = Some a"
  shows "a_complexity r = Some (analyzeQueryComplexity a)"
  using assms
  by (auto simp: analyzeSQL_def analyzeFailed_def
           split: outcome.splits if_splits option.splits sum.splits)

lemma extractTables_object: "extractTables n (JSObject a) = Returns []"
  by (simp add: extractTables_def parseSQL_def)

lemma isDigit_not_space: "isDigit c \<Longrightarrow> \<not> isSpace c"
  by (auto simp: isDigit_def isSpace_def)

lemma isDigit_not_sign: "isDigit c \<Longrightarrow> c \<noteq> CHR ''-'' \<and> c \<noteq> CHR ''+''"
  by (auto simp: isDigit_def)

lemma digitCount_le: "n < 2 ^ k \<Longrightarrow> digitCount 2 n \<le> k"
proof (induction k arbitrary: n)
  case 0
  then show ?case by (simp add: digitCount.simps [of 2 n])
next
  case (Suc k)
  show ?case
  proof (cases "n \<le> 0")
    case True
    then show ?thesis by (simp add: digitCount.simps [of 2 n])
  next
    case False
    from Suc.prems have "n div 2 < 2 ^ k" by simp
    then have "digitCount 2 (n div 2) \<le> k" by (rule Suc.IH)
    with False show ?thesis by (simp add: digitCount.simps [of 2 n])
  qed
qed

lemma digitCount_1: "digitCount 2 1 = 1"
  by (simp add: digitCount.simps [of 2 1] digitCount.simps [of 2 0])

lemma magnitude_le:
  assumes "0 < n" "n < 2 ^ k"
  shows "magnitude 2 (of_int n) \<le> int k - 1"
  using digitCount_le [OF assms(2)]
  by (simp add: magnitude_def Let_def digitCount_1)

lemma roundHalfEven_int: "roundHalfEven (of_int k) = k"
  by (simp add: roundHalfEven_def)

lemma roundDouble_exact:
  assumes "0 < n" "n < 2 ^ 53"
  shows "roundDouble (of_int n) = of_int n"
proof -
  define e where "e = max (magnitude 2 (of_int n)) (- 1022) - 52"
  have e: "e \<le> 0" using magnitude_le [OF assms] by (simp add: e_def)
  have "scale2 (of_int n) (- e) = of_int (n * 2 ^ nat (- e))"
    using e by (simp add: scale2_def)
  then have "roundHalfEven (scale2 (of_int n) (- e)) = n * 2 ^ nat (- e)"
    by (simp only: roundHalfEven_int)
  then have "roundDouble (of_int n) = scale2 (of_int (n * 2 ^ nat (- e))) e"
    by (simp add: roundDouble_def e_def Let_def)
  also have "\<dots> = of_int n" using e by (simp add: scale2_def)
  finally show ?thesis .
qed

lemma numberValue_small:
  assumes "0 \<le> n" "n < 2 ^ 53"
  shows "numberValue (of_int n) = Num (of_int n)"
proof (cases "n = 0")
  case True
  then show ?thesis by (simp add: numberValue_def)
next
  case False
  with assms have p: "0 < n" by simp
  have r: "roundDouble (of_int n) = of_int n" using p assms(2) by (rule roundDouble_exact)
  have "magnitude 2 (of_int n) \<le> 52" using magnitude_le [OF p assms(2)] by simp
  then show ?thesis using p r by (simp add: numberValue_def Let_def)
qed

lemma numberValue_2_53: "numberValue 9007199254740992 = Num 9007199254740992"
  by code_simp

lemma numberValue_exact:
  assumes "0 \<le> n" "n \<le> 2 ^ 53"
  shows "numberValue (of_int n) = Num (of_int n)"
proof (cases "n = 2 ^ 53")
  case True
  then show ?thesis using numberValue_2_53 by simp
next
  case False
  with assms(2) have "n < 2 ^ 53" by simp
  with assms(1) show ?thesis by (rule numberValue_small)
qed

lemma digitsVal_nonneg: "0 \<le> digitsVal ds"
proof -
  have "0 \<le> a \<Longrightarrow> 0 \<le> foldl (\<lambda>a c. 10 * a + int (digitVal c)) a ds" for a
    by (induction ds arbitrary: a) simp_all
  then show ?thesis by (simp add: digitsVal_def)
qed

lemma parseInt10_digits:
  assumes "ds \<noteq> []" and "list_all isDigit ds" and "rest = [] \<or> \<not> isDigit (hd rest)"
  shows "parseInt10 (ds @ rest) = numberValue (of_int (digitsVal ds))"
proof -
  from assms(1) obtain d ds' where ds: "ds = d # ds'" by (cases ds) auto
  with assms(2) have d: "isDigit d" by simp
  have tw: "takeWhile isDigit (ds @ rest) = ds"
  proof (cases rest)
    case Nil
    with assms(2) show ?thesis by (simp add: list_all_iff)
  next
    case (Cons c cs)
    with assms(2,3) show ?thesis by (simp add: list_all_iff takeWhile_tail)
  qed
  have dw: "dropWhile isSpace (ds @ rest) = ds @ rest"
    using ds d isDigit_not_space by simp
  have "parseInt10 (ds @ rest) = withSign False (of_int (digitsVal ds))"
    unfolding parseInt10_def dw Let_def
    using ds d isDigit_not_sign [OF d] tw assms(1) by simp
  then show ?thesis by (simp add: withSign_def numberValue_def)
qed

lemma parseInt10_2_53_1: "parseInt10 ''9007199254740993'' = Num 9007199254740992"
  by code_simp

lemma parsePrimaryExpression_number:
  assumes "pcurrent p = Some t" and "tok_type t = ''NUMBER''"
  shows "parsePrimaryExpression n pe ps p =
           Ok (Literal (LNumber (parseNumberLiteral (tok_value t))) ''number'' None) (padvance p)"
  using assms by (simp add: parsePrimaryExpression_def)

section \<open>Worked inputs\<close>

text \<open>
  The token lists and trees of the inputs the claims below are checked on, each computed
  from the definitions above.
\<close>

definition s6_sql :: string where
  "s6_sql = ''SELECT id FROM a UNION ALL SELECT id FROM b ORDER BY id LIMIT 5''"

definition s6_tokens :: "token list" where
  "s6_tokens =
     [Token ''SELECT'' ''SELECT'' 1 1 0 6,
      Token ''IDENTIFIER'' ''id'' 1 8 7 9,
      Token ''FROM'' ''FROM'' 1 11 10 14,
      Token ''IDENTIFIER'' ''a'' 1 16 15 16,
      Token ''UNION'' ''UNION'' 1 18 17 22,
      Token ''ALL'' ''ALL'' 1 24 23 26,
      Token ''SELECT'' ''SELECT'' 1 28 27 33,
      Token ''IDENTIFIER'' ''id'' 1 35 34 36,
      Token ''FROM'' ''FROM'' 1 38 37 41,
      Token ''IDENTIFIER'' ''b'' 1 43 42 43,
      Token ''ORDER'' ''ORDER'' 1 45 44 49,
      Token ''BY'' ''BY'' 1 51 50 52,
      Token ''IDENTIFIER'' ''id'' 1 54 53 55,
      Token ''LIMIT'' ''LIMIT'' 1 57 56 61,
      Token ''NUMBER'' ''5'' 1 63 62 63,
      Token ''EOF'' [] 1 64 63 63]"



definition s7_sql :: string where
  "s7_sql = ''SELECT * FROM users WHERE email IS NOT NULL AND age BETWEEN 18 AND 65 AND name LIKE '' @
     [CHR 0x27] @ ''A%'' @ [CHR 0x27]"

definition s7_tokens :: "token list" where
  "s7_tokens =
     [Token ''SELECT'' ''SELECT'' 1 1 0 6,
      Token ''MULTIPLY'' ''*'' 1 8 7 8,
      Token ''FROM'' ''FROM'' 1 10 9 13,
      Token ''IDENTIFIER'' ''users'' 1 15 14 19,
      Token ''WHERE'' ''WHERE'' 1 21 20 25,
      Token ''IDENTIFIER'' ''email'' 1 27 26 31,
      Token ''IS'' ''IS'' 1 33 32 34,
      Token ''NOT'' ''NOT'' 1 36 35 38,
      Token ''NULL'' ''NULL'' 1 40 39 43,
      Token ''AND'' ''AND'' 1 45 44 47,
      Token ''IDENTIFIER'' ''age'' 1 49 48 51,
      Token ''BETWEEN'' ''BETWEEN'' 1 53 52 59,
      Token ''NUMBER'' ''18'' 1 61 60 62,
      Token ''AND'' ''AND'' 1 64 63 66,
      Token ''NUMBER'' ''65'' 1 68 67 69,
      Token ''AND'' ''AND'' 1 71 70 73,
      Token ''IDENTIFIER'' ''name'' 1 75 74 78,
      Token ''LIKE'' ''LIKE'' 1 80 79 83,
      Token ''STRING'' ''A%'' 1 85 84 88,
      Token ''EOF'' [] 1 89 88 88]"

definition s7_ast :: node where
  "s7_ast =
     SelectStatement [Wildcard] (Some (FromClause [TableReference ''users'' None None] []))
       (Some (BinaryExpression (BinaryExpression (BinaryExpression (ColumnReference ''email''
       None None) ''IS NOT'' (Literal LNull ''NULL'' None) None) ''AND'' (BinaryExpression
       (ColumnReference ''age'' None None) ''BETWEEN'' (BetweenRange (Literal (LNumber (Num 18))
       ''number'' None) (Literal (LNumber (Num 65)) ''number'' None)) None) None) ''AND''
       (BinaryExpression (ColumnReference ''name'' None None) ''LIKE'' (Literal (LStr ''A%'')
       ''string'' None) None) None)) None None None None None False None"

definition s7_end :: parser where
  "s7_end = \<lparr>p_tokens = s7_tokens, p_position = 19, strict = False\<rparr>"

definition q3_sql :: string where
  "q3_sql = ''SELECT * FROM t WHERE a = 1 AND b = 2 AND c = 3''"

definition q3_tokens :: "token list" where
  "q3_tokens =
     [Token ''SELECT'' ''SELECT'' 1 1 0 6,
      Token ''MULTIPLY'' ''*'' 1 8 7 8,
      Token ''FROM'' ''FROM'' 1 10 9 13,
      Token ''IDENTIFIER'' ''t'' 1 15 14 15,
      Token ''WHERE'' ''WHERE'' 1 17 16 21,
      Token ''IDENTIFIER'' ''a'' 1 23 22 23,
      Token ''EQUALS'' ''='' 1 25 24 25,
      Token ''NUMBER'' ''1'' 1 27 26 27,
      Token ''AND'' ''AND'' 1 29 28 31,
      Token ''IDENTIFIER'' ''b'' 1 33 32 33,
      Token ''EQUALS'' ''='' 1 35 34 35,
      Token ''NUMBER'' ''2'' 1 37 36 37,
      Token ''AND'' ''AND'' 1 39 38 41,
      Token ''IDENTIFIER'' ''c'' 1 43 42 43,
      Token ''EQUALS'' ''='' 1 45 44 45,
      Token ''NUMBER'' ''3'' 1 47 46 47,
      Token ''EOF'' [] 1 48 47 47]"

definition q3_ast :: node where
  "q3_ast =
     SelectStatement [Wildcard] (Some (FromClause [TableReference ''t'' None None] [])) (Some
       (BinaryExpression (BinaryExpression (BinaryExpression (ColumnReference ''a'' None None)
       ''='' (Literal (LNumber (Num 1)) ''number'' None) None) ''AND'' (BinaryExpression
       (ColumnReference ''b'' None None) ''='' (Literal (LNumber (Num 2)) ''number'' None) None)
       None) ''AND'' (BinaryExpression (ColumnReference ''c'' None None) ''='' (Literal (LNumber
       (Num 3)) ''number'' None) None) None)) None None None None None False None"

definition q3_end :: parser where
  "q3_end = \<lparr>p_tokens = q3_tokens, p_position = 16, strict = False\<rparr>"

definition q1_sql :: string where
  "q1_sql = ''SELECT * FROM t WHERE a = 1''"

definition q1_tokens :: "token list" where
  "q1_tokens =
     [Token ''SELECT'' ''SELECT'' 1 1 0 6,
      Token ''MULTIPLY'' ''*'' 1 8 7 8,
      Token ''FROM'' ''FROM'' 1 10 9 13,
      Token ''IDENTIFIER'' ''t'' 1 15 14 15,
      Token ''WHERE'' ''WHERE'' 1 17 16 21,
      Token ''IDENTIFIER'' ''a'' 1 23 22 23,
      Token ''EQUALS'' ''='' 1 25 24 25,
      Token ''NUMBER'' ''1'' 1 27 26 27,
      Token ''EOF'' [] 1 28 27 27]"

definition q1_ast :: node where
  "q1_ast =
     SelectStatement [Wildcard] (Some (FromClause [TableReference ''t'' None None] [])) (Some
       (BinaryExpression (ColumnReference ''a'' None None) ''='' (Literal (LNumber (Num 1))
       ''number'' None) None)) None None None None None False None"

definition q1_end :: parser where
  "q1_end = \<lparr>p_tokens = q1_tokens, p_position = 8, strict = False\<rparr>"

definition del_sql :: string where
  "del_sql = ''DELETE FROM users''"

definition del_tokens :: "token list" where
  "del_tokens =
     [Token ''DELETE'' ''DELETE'' 1 1 0 6,
      Token ''FROM'' ''FROM'' 1 8 7 11,
      Token ''IDENTIFIER'' ''users'' 1 13 12 17,
      Token ''EOF'' [] 1 18 17 17]"

definition del_ast :: node where
  "del_ast =
     DeleteStatement (TableReference ''users'' None None) None"

definition del_end :: parser where
  "del_end = \<lparr>p_tokens = del_tokens, p_position = 3, strict = False\<rparr>"

definition n1_sql :: string where
  "n1_sql = ''SELECT 1e3''"

definition n1_tokens :: "token list" where
  "n1_tokens =
     [Token ''SELECT'' ''SELECT'' 1 1 0 6,
      Token ''NUMBER'' ''1e3'' 1 8 7 10,
      Token ''EOF'' [] 1 11 10 10]"

definition n1_ast :: node where
  "n1_ast =
     SelectStatement [Literal (LNumber (Num 1)) ''number'' None] None None None None None None
       None False None"

definition n1_end :: parser where
  "n1_end = \<lparr>p_tokens = n1_tokens, p_position = 2, strict = False\<rparr>"

definition n2_sql :: string where
  "n2_sql = ''SELECT 1.0e3''"

definition n2_tokens :: "token list" where
  "n2_tokens =
     [Token ''SELECT'' ''SELECT'' 1 1 0 6,
      Token ''NUMBER'' ''1.0e3'' 1 8 7 12,
      Token ''EOF'' [] 1 13 12 12]"

definition n2_ast :: node where
  "n2_ast =
     SelectStatement [Literal (LNumber (Num 1000)) ''number'' None] None None None None None
       None None False None"

definition n2_end :: parser where
  "n2_end = \<lparr>p_tokens = n2_tokens, p_position = 2, strict = False\<rparr>"

definition q1_analysis :: analysis where
  "q1_analysis =
     \<lparr>conditions = [\<lparr>cond_field = ''a'', cond_operator = ''='', cond_value = VNumber (Num 1),
                      cond_type = ''equality''\<rparr>],
      fields' = extractFields [Wildcard],
      tables = [TableInfo ''t'' None None], joins = [], orderBy = [], groupBy = [], limit = None\<rparr>"

definition q1_result :: analyzeResult where
  "q1_result =
     \<lparr>a_success = True, a_error = None, a_query_type = ''SelectStatement'',
      a_query_sql = q1_sql, a_analysis = Some q1_analysis,
      a_complexity = Some (analyzeQueryComplexity q1_analysis),
      a_ast = Some \<lparr>success = True, ast = Some q1_ast, pr_tables = [''t''], pr_columns = [''a''],
                     pr_tokens = None, errors = []\<rparr>\<rparr>"


lemma s6_tokenize: "tokenize (new_Lexer s6_sql False False) = Inr s6_tokens"
  by code_simp


lemma s7_tokenize: "tokenize (new_Lexer s7_sql False False) = Inr s7_tokens"
  by code_simp

lemma s7_parse: "parse 20 (new_Parser s7_tokens False) = Ok s7_ast s7_end"
  by code_simp

lemma q3_tokenize: "tokenize (new_Lexer q3_sql False False) = Inr q3_tokens"
  by code_simp

lemma q3_parse: "parse 20 (new_Parser q3_tokens False) = Ok q3_ast q3_end"
  by code_simp

lemma q1_tokenize: "tokenize (new_Lexer q1_sql False False) = Inr q1_tokens"
  by code_simp

lemma q1_parse: "parse 20 (new_Parser q1_tokens False) = Ok q1_ast q1_end"
  by code_simp

lemma del_tokenize: "tokenize (new_Lexer del_sql False False) = Inr del_tokens"
  by code_simp

lemma del_parse: "parse 20 (new_Parser del_tokens False) = Ok del_ast del_end"
  by code_simp

lemma n1_tokenize: "tokenize (new_Lexer n1_sql False False) = Inr n1_tokens"
  by code_simp

lemma n1_parse: "parse 20 (new_Parser n1_tokens False) = Ok n1_ast n1_end"
  by code_simp

lemma n2_tokenize: "tokenize (new_Lexer n2_sql False False) = Inr n2_tokens"
  by code_simp

lemma n2_parse: "parse 20 (new_Parser n2_tokens False) = Ok n2_ast n2_end"
  by code_simp




lemma s7_analysis:
  "analysisOf (analyzeSQL 20 s7_sql defaultOptions) =
     Some \<lparr>conditions = extractConditions (whereOf s7_ast), fields' = extractFields [Wildcard],
           tables = extractTableInfo (Some (FromClause [TableReference ''users'' None None] [])),
           joins = [], orderBy = extractOrderBy None, groupBy = extractGroupBy None,
           limit = extractLimit None\<rparr>"
  using analyzeSQL_Select [OF s7_tokenize s7_parse]
  by (simp add: s7_ast_def analyzeSelectQuery_no_joins)

lemma s7_conditionTypes: "map cond_type (extractConditions (whereOf s7_ast)) = [''range'', ''pattern'']"
  by (simp add: s7_ast_def extractConditions_def getConditionType_def)

lemma q3_analysis:
  "analysisOf (analyzeSQL 20 q3_sql defaultOptions) =
     Some \<lparr>conditions = extractConditions (whereOf q3_ast), fields' = extractFields [Wildcard],
           tables = extractTableInfo (Some (FromClause [TableReference ''t'' None None] [])),
           joins = [], orderBy = extractOrderBy None, groupBy = extractGroupBy None,
           limit = extractLimit None\<rparr> \<and>
   complexityOf (analyzeSQL 20 q3_sql defaultOptions) =
     Some (analyzeQueryComplexity
       \<lparr>conditions = extractConditions (whereOf q3_ast), fields' = extractFields [Wildcard],
        tables = extractTableInfo (Some (FromClause [TableReference ''t'' None None] [])),
        joins = [], orderBy = extractOrderBy None, groupBy = extractGroupBy None,
        limit = extractLimit None\<rparr>)"
  using analyzeSQL_Select [OF q3_tokenize q3_parse]
  by (simp add: q3_ast_def analyzeSelectQuery_no_joins)

lemma q3_conditions: "length (extractConditions (whereOf q3_ast)) = 3"
  by (simp add: q3_ast_def extractConditions_def)

lemma plain_star:
  "plainSelect \<lparr>conditions = cs, fields' = extractFields [Wildcard],
      tables = extractTableInfo (Some (FromClause [TableReference t None None] [])),
      joins = [], orderBy = extractOrderBy None, groupBy = extractGroupBy None,
      limit = extractLimit None\<rparr>"
  by (simp add: plainSelect_def aggregates_def extractFields_def extractField_def
        extractTableInfo_def extractTable_def extractOrderBy_def extractGroupBy_def)

lemma q1_trim: "trim q1_sql = q1_sql"
  by code_simp

lemma q1_analyzeSQL: "analyzeSQL 20 q1_sql defaultOptions = Returns q1_result"
  using q1_tokenize q1_parse
  by (simp add: analyzeSQL_def parseSQL_def defaultOptions_def q1_ast_def q1_result_def
        q1_analysis_def q1_trim analyzeSelectQuery_def extractConditions_def getConditionType_def
        litToVal_def extractTableInfo_def extractTable_def extractOrderBy_def extractGroupBy_def
        extractLimit_def extractTablesFromAST_def extractColumnsFromAST_def setOrder_def)

section \<open>The claims\<close>



text \<open>
  C2. The complexity score of an analysis is 2 per condition, plus 3 per table beyond the
  first, plus 4 per join, plus 2 per field whose \<open>aggregation\<close> is true, plus 3 when \<open>groupBy\<close>
  is not empty, plus 2 when \<open>orderBy\<close> is not empty; the level is \<open>simple\<close> when the score is at
  most 5, \<open>medium\<close> when it is at most 15, and \<open>complex\<close> otherwise. (On naturals
  \<open>length (tables a) - 1\<close> is 0 for an empty table list, as the guard \<open>tables.length > 1\<close> of
  the source has it.)
\<close>

theorem analyzeQueryComplexity_score_level:
  "score (analyzeQueryComplexity a) =
     2 * length (conditions a) + 3 * (length (tables a) - 1) + 4 * length (joins a) +
     2 * length (filter (\<lambda>f. fi_aggregation f = Some True) (fields' a)) +
     (if groupBy a \<noteq> [] then 3 else 0) + (if orderBy a \<noteq> [] then 2 else 0) \<and>
   level (analyzeQueryComplexity a) =
     (if score (analyzeQueryComplexity a) \<le> 5 then ''simple''
      else if score (analyzeQueryComplexity a) \<le> 15 then ''medium'' else ''complex'')"
  using score_analyzeQueryComplexity [of a] level_analyzeQueryComplexity [of a]
  by (simp add: levelOf_def aggregates_def)

text \<open>
  C3. For the input
  \<open>SELECT * FROM users WHERE email IS NOT NULL AND age BETWEEN 18 AND 65 AND name LIKE 'A%'\<close>
  parsing succeeds and the analyzer produces exactly two conditions, of types \<open>range\<close> and
  \<open>pattern\<close> in this order. The leaf \<open>email IS NOT NULL\<close> produces no condition:
  \<open>traverseCondition\<close> turns a binary expression into a condition only when its operator is
  in its list of comparison operators, which holds neither \<open>IS\<close> nor \<open>IS NOT\<close>; so the
  classifier \<open>getConditionType\<close> never sees these operators. The second theorem records that
  the list of types is not \<open>other\<close>, \<open>range\<close>, \<open>pattern\<close>.
\<close>

theorem s7_two_conditions:
  "conditionTypes (analyzeSQL 20 s7_sql defaultOptions) = Some [''range'', ''pattern''] \<and>
   traverseCondition (BinaryExpression l ''IS NOT'' r a) = [] \<and>
   traverseCondition (BinaryExpression l ''IS'' r a) = []"
  by (simp add: conditionTypes_def s7_analysis s7_conditionTypes)

theorem s7_not_three_conditions:
  "conditionTypes (analyzeSQL 20 s7_sql defaultOptions) \<noteq> Some [''other'', ''range'', ''pattern'']"
  by (simp add: conditionTypes_def s7_analysis s7_conditionTypes)

text \<open>
  C4. For a successfully analyzed \<open>SELECT\<close> with at most one table, no join, no aggregate
  field, no \<open>GROUP BY\<close> and no \<open>ORDER BY\<close> (\<open>plainSelect\<close>), the complexity score is twice
  the number of extracted conditions, and so the level is \<open>simple\<close> exactly when there are at
  most 2 conditions, \<open>medium\<close> exactly for 3 to 7 conditions, and \<open>complex\<close> exactly from 8
  conditions on. The last theorem is the instance
  \<open>SELECT * FROM t WHERE a = 1 AND b = 2 AND c = 3\<close>: a plain \<open>SELECT\<close> of level \<open>medium\<close>.
\<close>

theorem plain_select_level:
  assumes "analyzeSQL n sql opts = Returns r" and "a_success r"
    and "a_query_type r = ''SelectStatement''" and "a_analysis r = Some a"
    and "plainSelect a"
  shows "\<exists>c. a_complexity r = Some c \<and> score c = 2 * length (conditions a) \<and>
              (level c = ''simple'') = (length (conditions a) \<le> 2) \<and>
              (level c = ''medium'') = (3 \<le> length (conditions a) \<and> length (conditions a) \<le> 7) \<and>
              (level c = ''complex'') = (8 \<le> length (conditions a))"
proof -
  have c: "a_complexity r = Some (analyzeQueryComplexity a)"
    using assms(1-4) by (rule analyzeSQL_complexity)
  have s: "score (analyzeQueryComplexity a) = 2 * length (conditions a)"
    using assms(5) by (simp add: score_analyzeQueryComplexity plainSelect_def)
  show ?thesis
    using c s by (auto simp: level_analyzeQueryComplexity levelOf_def)
qed

theorem plain_select_level_witness:
  "analyzeSQL 20 q1_sql defaultOptions = Returns q1_result \<and> a_success q1_result \<and>
   a_query_type q1_result = ''SelectStatement'' \<and> a_analysis q1_result = Some q1_analysis \<and>
   plainSelect q1_analysis \<and>
   (\<exists>c. a_complexity q1_result = Some c \<and> score c = 2 * length (conditions q1_analysis) \<and>
        (level c = ''simple'') = (length (conditions q1_analysis) \<le> 2) \<and>
        (level c = ''medium'') =
          (3 \<le> length (conditions q1_analysis) \<and> length (conditions q1_analysis) \<le> 7) \<and>
        (level c = ''complex'') = (8 \<le> length (conditions q1_analysis)))"
proof -
  have 1: "a_success q1_result" by (simp add: q1_result_def)
  have 2: "a_query_type q1_result = ''SelectStatement''" by (simp add: q1_result_def)
  have 3: "a_analysis q1_result = Some q1_analysis" by (simp add: q1_result_def)
  have 4: "plainSelect q1_analysis"
    by (simp add: plainSelect_def q1_analysis_def aggregates_def extractFields_def extractField_def)
  from plain_select_level [OF q1_analyzeSQL 1 2 3 4] q1_analyzeSQL 1 2 3 4
  show ?thesis by blast
qed

theorem plain_select_three_conditions_medium:
  "map_option plainSelect (analysisOf (analyzeSQL 20 q3_sql defaultOptions)) = Some True \<and>
   map_option level (complexityOf (analyzeSQL 20 q3_sql defaultOptions)) = Some ''medium''"
  using plain_star
  by (simp add: q3_analysis level_analyzeQueryComplexity score_analyzeQueryComplexity
        q3_conditions levelOf_def aggregates_def extractFields_def extractField_def
        extractTableInfo_def extractTable_def extractOrderBy_def extractGroupBy_def)

text \<open>
  C5. The \<open>tables\<close> of the analysis of a statement other than \<open>SELECT\<close>. For
  \<open>DELETE FROM users\<close>, \<open>analyzeSQL\<close> succeeds and the \<open>tables\<close> of its analysis is the
  empty list, although \<open>parseSQL\<close> reports the table \<open>users\<close> for the same input. The cause
  is general: \<open>analyzeSQL\<close> passes the syntax tree to the exported \<open>extractTables\<close>, which
  expects the text of a statement; \<open>parseSQL\<close> rejects an argument that is not a string with
  \<open>INVALID_INPUT\<close>, and \<open>extractTables\<close> answers every error with the empty list. Hence
  \<open>extractTables\<close> of a syntax tree is empty whatever the tree.
\<close>

theorem delete_analysis_tables_empty:
  "map_option tables (analysisOf (analyzeSQL 20 del_sql defaultOptions)) = Some [] \<and>
   parsedTables (parseSQL 20 (JSString del_sql) defaultOptions) = Some [''users''] \<and>
   extractTables n (JSObject a) = Returns []"
  using del_tokenize del_parse
  by (simp add: analyzeSQL_def parseSQL_def defaultOptions_def del_ast_def analysisOf_def
        parsedTables_def extractTables_object extractTablesFromAST_def)

text \<open>
  C6. A comment opened by \<open>/*\<close> and never closed. On
  \<open>SELECT * FROM users /* unterminated comment\<close> the lexer raises no error: it returns the
  four tokens before the comment and \<open>EOF\<close>. The loop of \<open>readMultiLineComment\<close> stops at the
  end of the input as quietly as at \<open>*/\<close>; unlike \<open>readString\<close> and \<open>readQuotedIdentifier\<close>
  it makes no test for the end of the input afterwards.
\<close>

theorem unterminated_comment_no_error:
  "tokenize (new_Lexer ''SELECT * FROM users /* unterminated comment'' False False) =
     Inr [Token ''SELECT'' ''SELECT'' 1 1 0 6, Token ''MULTIPLY'' ''*'' 1 8 7 8,
          Token ''FROM'' ''FROM'' 1 10 9 13, Token ''IDENTIFIER'' ''users'' 1 15 14 19,
          Token ''EOF'' [] 1 44 43 43]"
  by code_simp

text \<open>
  C7. For every input string and every setting of the lexer's options, \<open>tokenize\<close>
  returns: either a token list that ends in an \<open>EOF\<close> token, the only one of the list
  (so the list is not empty), or an \<open>SQLError\<close> whose code is \<open>LEXICAL_ERROR\<close> or
  \<open>UNTERMINATED_STRING\<close>. \<open>tokenize\<close> is a total function: its loops are defined with
  their termination proofs.
\<close>

theorem tokenize_result:
  "(\<exists>pre eof. tokenize (new_Lexer s ws cm) = Inr (pre @ [eof]) \<and> tok_type eof = ''EOF'' \<and>
       list_all (\<lambda>t. tok_type t \<noteq> ''EOF'') pre) \<or>
   (\<exists>e. tokenize (new_Lexer s ws cm) = Inl e \<and> lexical_exn e)"
proof (cases "tokenize_loop ((new_Lexer s ws cm)\<lparr>tokens := [], position := 0, line := 1, column := 1\<rparr>)")
  case (Inl e)
  then have "lexical_exn e" by (rule tokenize_loop_Inl)
  with Inl show ?thesis by (simp add: tokenize_def)
next
  case (Inr lx)
  from tokenize_loop_Inr [OF Inr]
  have "list_all (\<lambda>t. tok_type t \<noteq> ''EOF'') (tokens lx)" by simp
  with Inr show ?thesis by (simp add: tokenize_def)
qed

text \<open>
  C8. For every string \<open>s\<close> and all options, \<open>validateSQL\<close> returns the record whose \<open>valid\<close>
  is the \<open>success\<close> of the result of \<open>parseSQL\<close> on the same arguments and whose \<open>errors\<close> is
  the \<open>errors\<close> of that result. On a string \<open>parseSQL\<close> throws nothing, so the handler of
  \<open>validateSQL\<close> is never entered. (With too little fuel for the parser neither function
  has finished; this is the second disjunct.)
\<close>

theorem validateSQL_parseSQL:
  "(\<exists>r. parseSQL n (JSString s) opts = Returns r \<and>
        validateSQL n (JSString s) opts = Returns \<lparr>valid = success r, v_errors = errors r\<rparr>) \<or>
   (parseSQL n (JSString s) opts = Unfinished \<and> validateSQL n (JSString s) opts = Unfinished)"
proof (cases "parseSQL n (JSString s) opts")
  case (Returns r)
  then show ?thesis by (simp add: validateSQL_def)
next
  case (Throws e)
  then show ?thesis
    by (simp add: parseSQL_def split: sum.splits res.splits)
next
  case Unfinished
  then show ?thesis by (simp add: validateSQL_def)
qed

text \<open>
  C9. On a \<open>NUMBER\<close> token whose text holds no decimal point, \<open>parsePrimaryExpression\<close> returns
  the \<open>Literal\<close> of data type \<open>number\<close> whose value is \<open>parseInt\<close> of the text in base 10, and
  consumes the token. \<open>parseInt\<close> of digits followed by something that does not begin with a
  digit is the Number value of the integer the digits denote: the conversion stops at the
  first character that is not a digit. The Number value is the integer itself up to \<open>2^53\<close>,
  and the nearest double beyond (\<open>9007199254740993\<close> gives \<open>9007199254740992\<close>). So
  \<open>SELECT 1e3\<close> parses to the literal 1, and \<open>SELECT 1.0e3\<close>, whose text holds a decimal
  point and goes through \<open>parseFloat\<close>, to the literal 1000.
\<close>

theorem number_literal_parseInt:
  "(pcurrent p = Some t \<and> tok_type t = ''NUMBER'' \<and> CHR ''.'' \<notin> set (tok_value t) \<longrightarrow>
      parsePrimaryExpression n pe ps p =
        Ok (Literal (LNumber (parseInt10 (tok_value t))) ''number'' None) (padvance p)) \<and>
   (ds \<noteq> [] \<and> list_all isDigit ds \<and> (rest = [] \<or> \<not> isDigit (hd rest)) \<longrightarrow>
      parseInt10 (ds @ rest) = numberValue (of_int (digitsVal ds)) \<and>
      (digitsVal ds \<le> 2 ^ 53 \<longrightarrow> parseInt10 (ds @ rest) = Num (of_int (digitsVal ds)))) \<and>
   parseInt10 ''9007199254740993'' = Num 9007199254740992 \<and>
   astOf (parseSQL 20 (JSString ''SELECT 1e3'') defaultOptions) =
     Some (SelectStatement [Literal (LNumber (Num 1)) ''number'' None]
             None None None None None None None False None) \<and>
   astOf (parseSQL 20 (JSString ''SELECT 1.0e3'') defaultOptions) =
     Some (SelectStatement [Literal (LNumber (Num 1000)) ''number'' None]
             None None None None None None None False None)"
proof -
  have a: "astOf (parseSQL 20 (JSString n1_sql) defaultOptions) = Some n1_ast"
    using n1_tokenize n1_parse by (simp add: parseSQL_def defaultOptions_def astOf_def)
  have b: "astOf (parseSQL 20 (JSString n2_sql) defaultOptions) = Some n2_ast"
    using n2_tokenize n2_parse by (simp add: parseSQL_def defaultOptions_def astOf_def)
  have c: "ds \<noteq> [] \<and> list_all isDigit ds \<and> (rest = [] \<or> \<not> isDigit (hd rest)) \<longrightarrow>
      parseInt10 (ds @ rest) = numberValue (of_int (digitsVal ds)) \<and>
      (digitsVal ds \<le> 2 ^ 53 \<longrightarrow> parseInt10 (ds @ rest) = Num (of_int (digitsVal ds)))"
    using parseInt10_digits [of ds rest] numberValue_exact [OF digitsVal_nonneg, of ds]
    by simp
  have d: "pcurrent p = Some t \<and> tok_type t = ''NUMBER'' \<and> CHR ''.'' \<notin> set (tok_value t) \<longrightarrow>
      parsePrimaryExpression n pe ps p =
        Ok (Literal (LNumber (parseInt10 (tok_value t))) ''number'' None) (padvance p)"
    using parsePrimaryExpression_number [of p t n pe ps] by (simp add: parseNumberLiteral_def)
  from a b c d parseInt10_2_53_1 show ?thesis
    by (simp only: n1_sql_def n2_sql_def n1_ast_def n2_ast_def simp_thms)
qed

theorem number_literal_parseInt_witness:
  "pcurrent (new_Parser n1_tokens False\<lparr>p_position := 1\<rparr>) = Some (Token ''NUMBER'' ''1e3'' 1 8 7 10) \<and>
   tok_type (Token ''NUMBER'' ''1e3'' 1 8 7 10) = ''NUMBER'' \<and>
   CHR ''.'' \<notin> set (tok_value (Token ''NUMBER'' ''1e3'' 1 8 7 10)) \<and>
   parsePrimaryExpression 5 (parseExpression 4) (parseSelectStatement 4)
       (new_Parser n1_tokens False\<lparr>p_position := 1\<rparr>) =
     Ok (Literal (LNumber (Num 1)) ''number'' None)
        (padvance (new_Parser n1_tokens False\<lparr>p_position := 1\<rparr>)) \<and>
   ''1'' \<noteq> [] \<and> list_all isDigit ''1'' \<and> (''e3'' = [] \<or> \<not> isDigit (hd ''e3'')) \<and>
   digitsVal ''1'' \<le> 2 ^ 53 \<and>
   parseInt10 (''1'' @ ''e3'') = numberValue (of_int (digitsVal ''1'')) \<and>
   parseInt10 (''1'' @ ''e3'') = Num (of_int (digitsVal ''1''))"
proof -
  let ?p = "new_Parser n1_tokens False\<lparr>p_position := 1\<rparr>"
  let ?t = "Token ''NUMBER'' ''1e3'' 1 8 7 10"
  have 1: "pcurrent ?p = Some ?t" by code_simp
  have 2: "tok_type ?t = ''NUMBER''" by code_simp
  have 3: "CHR ''.'' \<notin> set (tok_value ?t)" by code_simp
  have 4: "''1'' \<noteq> [] \<and> list_all isDigit ''1'' \<and> (''e3'' = [] \<or> \<not> isDigit (hd ''e3''))"
    by code_simp
  have 5: "parseInt10 (tok_value ?t) = Num 1" by code_simp
  have 6: "digitsVal ''1'' \<le> 2 ^ 53" by code_simp
  note inst = number_literal_parseInt
    [of ?p ?t 5 "parseExpression 4" "parseSelectStatement 4" "''1''" "''e3''"]
  have b: "parsePrimaryExpression 5 (parseExpression 4) (parseSelectStatement 4) ?p =
             Ok (Literal (LNumber (parseInt10 (tok_value ?t))) ''number'' None) (padvance ?p)"
    using inst 1 2 3 by blast
  have d: "parseInt10 (''1'' @ ''e3'') = numberValue (of_int (digitsVal ''1'')) \<and>
           parseInt10 (''1'' @ ''e3'') = Num (of_int (digitsVal ''1''))"
    using inst 4 6 by blast
  show ?thesis using b [unfolded 5] d 1 2 3 4 6 by blast
qed



end
